theory Spec2Isabelle
  imports Complex_Main
begin

section \<open>Dynamic Window Approach: the single-robot file and the flocking file\<close>

text \<open>
  The development embeds the planning functions of
  \<^verbatim>\<open>PathPlanning/DynamicWindowApproach/dwa_3d.py\<close> (suffix \<open>_3d\<close>) and
  \<^verbatim>\<open>PathPlanning/DynamicWindowApproach/dwa_flocking.py\<close> (suffix \<open>_flock\<close>).
  Python floats are modelled as \<^typ>\<open>real\<close>; the two special values the cost
  computation can produce (infinities and not-a-number) are added by the type \<open>fl\<close>.
  The arithmetic on positions, angles and costs is exact. The time of the prediction loop is
  not: the number of passes of the loop depends on the rounding of \<^verbatim>\<open>time += config.dt\<close>,
  so that addition is the addition of doubles (\<open>fadd\<close>).
  A numpy vector is a \<^typ>\<open>real list\<close>, a numpy matrix a list of rows. Every index
  the source writes is checked against the length of what it indexes, and an index that does
  not exist is the value \<open>Inl IndexError\<close>, as the exception would be.
\<close>

subsection \<open>Errors and indexing\<close>

datatype error = IndexError | ValueError

text \<open>
  A computation that may raise is a value of \<open>error + 'a\<close>; \<open>rbind\<close> runs the next
  statement on the result of the previous one and stops at the first exception.
\<close>

definition rbind :: "error + 'a \<Rightarrow> ('a \<Rightarrow> error + 'b) \<Rightarrow> error + 'b" where
  "rbind m f = (case m of Inl e \<Rightarrow> Inl e | Inr a \<Rightarrow> f a)"

definition getitem :: "'a list \<Rightarrow> nat \<Rightarrow> error + 'a" where
  "getitem xs i = (if i < length xs then Inr (xs ! i) else Inl IndexError)"

definition setitem :: "'a list \<Rightarrow> nat \<Rightarrow> 'a \<Rightarrow> error + 'a list" where
  "setitem xs i v = (if i < length xs then Inr (xs[i := v]) else Inl IndexError)"

text \<open>Two-index access \<^verbatim>\<open>x[n, k]\<close> of a matrix stored as a list of rows.\<close>

definition getitem2 :: "real list list \<Rightarrow> nat \<Rightarrow> nat \<Rightarrow> error + real" where
  "getitem2 m n k = rbind (getitem m n) (\<lambda>row. getitem row k)"

definition setitem2 :: "real list list \<Rightarrow> nat \<Rightarrow> nat \<Rightarrow> real \<Rightarrow> error + real list list" where
  "setitem2 m n k v =
     rbind (getitem m n) (\<lambda>row. rbind (setitem row k v) (\<lambda>row'. setitem m n row'))"

subsection \<open>Configuration\<close>

datatype RobotType = circle | rectangle

record Config =
  max_speed :: real
  min_speed :: real
  max_yaw_rate :: real
  max_accel :: real
  max_delta_yaw_rate :: real
  v_resolution :: real
  yaw_rate_resolution :: real
  dt :: real
  predict_time :: real
  to_goal_cost_gain :: real
  speed_cost_gain :: real
  obstacle_cost_gain :: real
  robot_stuck_flag_cons :: real
  robot_type :: RobotType
  robot_radius :: real
  robot_width :: real
  robot_length :: real

subsection \<open>The motion model\<close>

text \<open>
  \<^verbatim>\<open>motion(x, u, dt)\<close> of \<^verbatim>\<open>dwa_3d.py\<close>: seven assignments on the state vector, in the
  order of the source. The heading is kept at index 3, index 2 is set to the constant 1,
  the velocities go to indices 4 and 5 and index 6 receives \<^verbatim>\<open>u[2]\<close>.
\<close>

definition motion_3d :: "real list \<Rightarrow> real list \<Rightarrow> real \<Rightarrow> error + real list" where
  "motion_3d x u dt' =
     rbind (getitem x 3) (\<lambda>x3. rbind (getitem u 1) (\<lambda>u1.
     rbind (setitem x 3 (x3 + u1 * dt')) (\<lambda>xa.
     rbind (getitem xa 0) (\<lambda>x0. rbind (getitem u 0) (\<lambda>u0. rbind (getitem xa 3) (\<lambda>h.
     rbind (setitem xa 0 (x0 + u0 * cos h * dt')) (\<lambda>xb.
     rbind (getitem xb 1) (\<lambda>x1. rbind (getitem u 0) (\<lambda>u0. rbind (getitem xb 3) (\<lambda>h.
     rbind (setitem xb 1 (x1 + u0 * sin h * dt')) (\<lambda>xc.
     rbind (setitem xc 2 1) (\<lambda>xd.
     rbind (getitem u 0) (\<lambda>u0. rbind (setitem xd 4 u0) (\<lambda>xe.
     rbind (getitem u 1) (\<lambda>u1. rbind (setitem xe 5 u1) (\<lambda>xf.
     rbind (getitem u 2) (\<lambda>u2. setitem xf 6 u2)))))))))))))))))"

text \<open>
  \<^verbatim>\<open>motion(x, n, u, dt)\<close> of \<^verbatim>\<open>dwa_flocking.py\<close>: the state is a matrix with one row per
  agent; row \<open>n\<close> is advanced, heading at column 2, velocities at columns 3 and 4.
\<close>

definition motion_flock :: "real list list \<Rightarrow> nat \<Rightarrow> real list \<Rightarrow> real \<Rightarrow> error + real list list" where
  "motion_flock x n u dt' =
     rbind (getitem2 x n 2) (\<lambda>x2. rbind (getitem u 1) (\<lambda>u1.
     rbind (setitem2 x n 2 (x2 + u1 * dt')) (\<lambda>xa.
     rbind (getitem2 xa n 0) (\<lambda>x0. rbind (getitem u 0) (\<lambda>u0. rbind (getitem2 xa n 2) (\<lambda>h.
     rbind (setitem2 xa n 0 (x0 + u0 * cos h * dt')) (\<lambda>xb.
     rbind (getitem2 xb n 1) (\<lambda>x1. rbind (getitem u 0) (\<lambda>u0. rbind (getitem2 xb n 2) (\<lambda>h.
     rbind (setitem2 xb n 1 (x1 + u0 * sin h * dt')) (\<lambda>xc.
     rbind (getitem u 0) (\<lambda>u0. rbind (setitem2 xc n 3 u0) (\<lambda>xd.
     rbind (getitem u 1) (\<lambda>u1. setitem2 xd n 4 u1))))))))))))))"

subsection \<open>The dynamic window\<close>

text \<open>
  \<^verbatim>\<open>calc_dynamic_window(x, config)\<close> of \<^verbatim>\<open>dwa_3d.py\<close>. The current velocities are read
  from indices 4 and 5 of the state vector. The result is the Python list
  \<^verbatim>\<open>[v_min, v_max, yaw_rate_min, yaw_rate_max]\<close>.
\<close>

definition calc_dynamic_window_3d :: "real list \<Rightarrow> Config \<Rightarrow> error + real list" where
  "calc_dynamic_window_3d x config =
     (let Vs = [min_speed config, max_speed config,
                - max_yaw_rate config, max_yaw_rate config]
      in rbind (getitem x 4) (\<lambda>x4. rbind (getitem x 5) (\<lambda>x5.
         let Vd = [x4 - max_accel config * dt config,
                   x4 + max_accel config * dt config,
                   x5 - max_delta_yaw_rate config * dt config,
                   x5 + max_delta_yaw_rate config * dt config]
         in Inr [max (Vs ! 0) (Vd ! 0), min (Vs ! 1) (Vd ! 1),
                 max (Vs ! 2) (Vd ! 2), min (Vs ! 3) (Vd ! 3)])))"

text \<open>
  \<^verbatim>\<open>calc_dynamic_window(x, config)\<close> of \<^verbatim>\<open>dwa_flocking.py\<close>: one window per agent, for
  the six agents the file is written for; the velocities of agent \<open>i\<close> are read from
  columns 3 and 4 of row \<open>i\<close>.
\<close>

text \<open>\<open>mapM\<close> builds a list element by element and stops at the first exception.\<close>

fun mapM :: "('a \<Rightarrow> error + 'b) \<Rightarrow> 'a list \<Rightarrow> error + 'b list" where
  "mapM f [] = Inr []"
| "mapM f (a # as) = rbind (f a) (\<lambda>b. rbind (mapM f as) (\<lambda>bs. Inr (b # bs)))"

definition calc_dynamic_window_flock :: "real list list \<Rightarrow> Config \<Rightarrow> error + real list list" where
  "calc_dynamic_window_flock x config =
     (let Vs = replicate 6 [min_speed config, max_speed config,
                            - max_yaw_rate config, max_yaw_rate config]
      in rbind (mapM (\<lambda>i. rbind (getitem2 x i 3) (\<lambda>xi3. rbind (getitem2 x i 4) (\<lambda>xi4.
                  Inr [xi3 - max_accel config * dt config,
                       xi3 + max_accel config * dt config,
                       xi4 - max_delta_yaw_rate config * dt config,
                       xi4 + max_delta_yaw_rate config * dt config]))) [0..<6])
         (\<lambda>Vd. Inr (map (\<lambda>i. [max (Vs ! i ! 0) (Vd ! i ! 0), min (Vs ! i ! 1) (Vd ! i ! 1),
                               max (Vs ! i ! 2) (Vd ! i ! 2), min (Vs ! i ! 3) (Vd ! i ! 3)])
                        [0..<6])))"

subsection \<open>Floating-point values of the cost computation\<close>

text \<open>
  A cost is a finite number, \<^verbatim>\<open>float("inf")\<close>, its negation, or not-a-number; the
  operations are those of IEEE arithmetic on these four kinds: a gain times a cost, the sum
  of two costs, the comparison \<^verbatim>\<open>>=\<close> (false as soon as one side is not-a-number), and
  the reciprocal \<^verbatim>\<open>1.0 / r\<close> of a numpy scalar \<open>r \<ge> 0\<close>, which is infinite at \<open>r = 0\<close>.
\<close>

datatype fl = Fin real | PInf | MInf | NaN

fun fl_scale :: "real \<Rightarrow> fl \<Rightarrow> fl" where
  "fl_scale g (Fin r) = Fin (g * r)"
| "fl_scale g PInf = (if 0 < g then PInf else if g < 0 then MInf else NaN)"
| "fl_scale g MInf = (if 0 < g then MInf else if g < 0 then PInf else NaN)"
| "fl_scale g NaN = NaN"

fun fl_add :: "fl \<Rightarrow> fl \<Rightarrow> fl" where
  "fl_add (Fin a) (Fin b) = Fin (a + b)"
| "fl_add NaN c = NaN"
| "fl_add c NaN = NaN"
| "fl_add PInf MInf = NaN"
| "fl_add MInf PInf = NaN"
| "fl_add PInf c = PInf"
| "fl_add c PInf = PInf"
| "fl_add MInf c = MInf"
| "fl_add c MInf = MInf"

fun fl_ge :: "fl \<Rightarrow> fl \<Rightarrow> bool" where
  "fl_ge NaN c = False"
| "fl_ge c NaN = False"
| "fl_ge PInf c = True"
| "fl_ge c MInf = True"
| "fl_ge (Fin a) (Fin b) = (b \<le> a)"
| "fl_ge (Fin a) PInf = False"
| "fl_ge MInf c = False"

definition fl_recip :: "real \<Rightarrow> fl" where
  "fl_recip r = (if r = 0 then PInf else Fin (1 / r))"

definition hypot :: "real \<Rightarrow> real \<Rightarrow> real" where
  "hypot a b = sqrt (a\<^sup>2 + b\<^sup>2)"

text \<open>\<^verbatim>\<open>math.atan2(y, x)\<close>, the angle of the point \<open>(x, y)\<close> in \<open>(-\<pi>, \<pi>]\<close>.\<close>

definition atan2 :: "real \<Rightarrow> real \<Rightarrow> real" where
  "atan2 y x =
     (if 0 < x then arctan (y / x)
      else if x < 0 then (if 0 \<le> y then arctan (y / x) + pi else arctan (y / x) - pi)
      else if 0 < y then pi / 2
      else if y < 0 then - pi / 2
      else 0)"

subsection \<open>The cost evaluators\<close>

text \<open>
  The two files hold the same text for \<^verbatim>\<open>calc_obstacle_cost\<close> and
  \<^verbatim>\<open>calc_to_goal_cost\<close>; one definition stands for both. A trajectory is a matrix
  with one row per sample, the obstacle set a list of points. The matrix \<open>r\<close> of all
  distances is kept as the list of its entries, obstacle by obstacle; \<^verbatim>\<open>np.min\<close> of an
  array without entries raises \<^verbatim>\<open>ValueError\<close>. \<open>column m k\<close> is \<^verbatim>\<open>m[:, k]\<close> and
  \<open>last_row_get m k\<close> is \<^verbatim>\<open>m[-1, k]\<close>.
\<close>

definition column :: "real list list \<Rightarrow> nat \<Rightarrow> error + real list" where
  "column m k = mapM (\<lambda>row. getitem row k) m"

definition last_row_get :: "real list list \<Rightarrow> nat \<Rightarrow> error + real" where
  "last_row_get m k = (if m = [] then Inl IndexError else getitem (last m) k)"

definition distances :: "real list \<Rightarrow> real list \<Rightarrow> (real \<times> real) list \<Rightarrow> real list" where
  "distances tx ty ob' =
     concat (map (\<lambda>(ox, oy). map (\<lambda>(px, py). hypot (px - ox) (py - oy)) (zip tx ty)) ob')"

definition calc_obstacle_cost :: "real list list \<Rightarrow> (real \<times> real) list \<Rightarrow> Config \<Rightarrow> error + fl" where
  "calc_obstacle_cost trajectory ob' config =
     rbind (column trajectory 0) (\<lambda>tx. rbind (column trajectory 1) (\<lambda>ty.
       let r = distances tx ty ob'
       in if list_ex (\<lambda>d. d \<le> robot_radius config) r then Inr PInf
          else if r = [] then Inl ValueError
          else Inr (fl_recip (Min (set r)))))"

definition calc_to_goal_cost :: "real list list \<Rightarrow> real \<times> real \<Rightarrow> error + real" where
  "calc_to_goal_cost trajectory goal =
     rbind (last_row_get trajectory 0) (\<lambda>t0. let dx = fst goal - t0 in
     rbind (last_row_get trajectory 1) (\<lambda>t1. let dy = snd goal - t1 in
     let error_angle = atan2 dy dx in
     rbind (last_row_get trajectory 2) (\<lambda>t2. let cost_angle = error_angle - t2 in
     Inr \<bar>atan2 (sin cost_angle) (cos cost_angle)\<bar>)))"

text \<open>
  Lines 185 to 189 of \<^verbatim>\<open>calc_control_and_trajectory\<close> (the same in both files): the
  three weighted terms and their sum. The speed term reads column 3 of the last row.
\<close>

definition final_cost :: "Config \<Rightarrow> real list list \<Rightarrow> real \<times> real \<Rightarrow> (real \<times> real) list \<Rightarrow> error + fl" where
  "final_cost config trajectory goal ob' =
     rbind (calc_to_goal_cost trajectory goal) (\<lambda>g. let to_goal_cost = to_goal_cost_gain config * g in
     rbind (last_row_get trajectory 3) (\<lambda>t3. let speed_cost = speed_cost_gain config * (max_speed config - t3) in
     rbind (calc_obstacle_cost trajectory ob' config) (\<lambda>oc. let ob_cost = fl_scale (obstacle_cost_gain config) oc in
     Inr (fl_add (Fin (to_goal_cost + speed_cost)) ob_cost))))"

subsection \<open>Candidate grids\<close>

text \<open>
  \<^verbatim>\<open>np.arange(start, stop, step)\<close> on floats: the values \<open>start + i * step\<close> for
  \<open>i\<close> below \<open>ceil((stop - start) / step)\<close>, none when that number is not positive;
  a zero step raises.
\<close>

definition arange :: "real \<Rightarrow> real \<Rightarrow> real \<Rightarrow> error + real list" where
  "arange start stop step =
     (if step = 0 then Inl ValueError
      else Inr (map (\<lambda>i. start + real i * step) [0..<nat \<lceil>(stop - start) / step\<rceil>]))"

subsection \<open>Double arithmetic\<close>

text \<open>
  A Python float is an IEEE 754 double: zero, or \<open>m * 2 ^ (e - 52)\<close> with an integer
  \<open>m\<close> of at most 53 bits and \<open>e \<ge> - 1022\<close>. \<open>round_double x\<close> is the double nearest to
  the real \<open>x\<close>, a tie going to the even \<open>m\<close>: the result of every arithmetic operation on
  doubles is the rounded exact result, and a decimal literal denotes the rounded decimal.
  (A result beyond the largest double is kept as the real it rounds to, where the machine
  gives \<^verbatim>\<open>inf\<close>; either is larger than every double.)
\<close>

definition round_half_even :: "real \<Rightarrow> int" where
  "round_half_even y =
     (let f = \<lfloor>y\<rfloor> in
      if y - of_int f < 1 / 2 then f
      else if 1 / 2 < y - of_int f then f + 1
      else if even f then f else f + 1)"

definition round_double :: "real \<Rightarrow> real" where
  "round_double x =
     (if x = 0 then 0
      else let e = max \<lfloor>log 2 \<bar>x\<bar>\<rfloor> (- 1022);
               u = 2 powr (of_int e - 52)
           in u * of_int (round_half_even (x / u)))"

text \<open>The sum \<^verbatim>\<open>a + b\<close> of two doubles.\<close>

definition fadd :: "real \<Rightarrow> real \<Rightarrow> real" where
  "fadd a b = round_double (a + b)"

subsection \<open>The trajectory simulator\<close>

text \<open>
  A numpy array of one, two or three dimensions. In \<^verbatim>\<open>dwa_3d.py\<close> the trajectory starts
  as the one-dimensional copy of the state and \<^verbatim>\<open>np.vstack\<close> makes it a matrix from the
  first tick on; the initial best trajectory \<^verbatim>\<open>np.array([x])\<close> has one dimension more
  than the state.
\<close>

datatype ndarray = A1 "real list" | A2 "real list list" | A3 "real list list list"

fun vstack_3d :: "ndarray \<Rightarrow> real list \<Rightarrow> error + ndarray" where
  "vstack_3d (A1 r) x = Inr (A2 [r, x])"
| "vstack_3d (A2 rows) x = Inr (A2 (rows @ [x]))"
| "vstack_3d (A3 c) x = Inl ValueError"

text \<open>
  The loop \<^verbatim>\<open>while time <= config.predict_time\<close> of \<^verbatim>\<open>predict_trajectory\<close>, with
  \<^verbatim>\<open>time += config.dt\<close> the addition of doubles. It does not end when the time step is
  not positive, so the result is an option: \<open>None\<close> is a run that never returns,
  \<open>Some (Inl e)\<close> a raised exception, \<open>Some (Inr t)\<close> the returned trajectory.
\<close>

partial_function (option) predict_loop_3d ::
  "Config \<Rightarrow> real list \<Rightarrow> real list \<Rightarrow> ndarray \<Rightarrow> real \<Rightarrow> (error + ndarray) option" where
  "predict_loop_3d config u x trajectory time =
     (if time \<le> predict_time config then
        (case motion_3d x u (dt config) of
           Inl e \<Rightarrow> Some (Inl e)
         | Inr x' \<Rightarrow>
            (case vstack_3d trajectory x' of
               Inl e \<Rightarrow> Some (Inl e)
             | Inr trajectory' \<Rightarrow> predict_loop_3d config u x' trajectory' (fadd time (dt config))))
      else Some (Inr trajectory))"

definition predict_trajectory_3d :: "real list \<Rightarrow> real \<Rightarrow> real \<Rightarrow> Config \<Rightarrow> (error + ndarray) option" where
  "predict_trajectory_3d x_init v y config = predict_loop_3d config [v, y] x_init (A1 x_init) 0"

partial_function (option) predict_loop_flock ::
  "Config \<Rightarrow> nat \<Rightarrow> real list \<Rightarrow> real list list \<Rightarrow> real list list \<Rightarrow> real \<Rightarrow> (error + real list list) option" where
  "predict_loop_flock config n u x trajectory time =
     (if time \<le> predict_time config then
        (case motion_flock x n u (dt config) of
           Inl e \<Rightarrow> Some (Inl e)
         | Inr x' \<Rightarrow> predict_loop_flock config n u x' (trajectory @ x') (fadd time (dt config)))
      else Some (Inr trajectory))"

definition predict_trajectory_flock ::
  "real list list \<Rightarrow> nat \<Rightarrow> real \<Rightarrow> real \<Rightarrow> Config \<Rightarrow> (error + real list list) option" where
  "predict_trajectory_flock x_init n v y config = predict_loop_flock config n [v, y] x_init x_init 0"

subsection \<open>Candidate search\<close>

text \<open>
  A computation that may also fail to return is a value of \<open>(error + 'a) option\<close>;
  \<open>obind\<close> sequences two of them, and \<open>foldM f as s\<close> is the loop
  \<^verbatim>\<open>for a in as: s = f(a, s)\<close>, left at the first exception.
\<close>

definition obind :: "(error + 'a) option \<Rightarrow> ('a \<Rightarrow> (error + 'b) option) \<Rightarrow> (error + 'b) option" where
  "obind m f = (case m of None \<Rightarrow> None | Some (Inl e) \<Rightarrow> Some (Inl e) | Some (Inr a) \<Rightarrow> f a)"

fun foldM :: "('a \<Rightarrow> 's \<Rightarrow> (error + 's) option) \<Rightarrow> 'a list \<Rightarrow> 's \<Rightarrow> (error + 's) option" where
  "foldM f [] s = Some (Inr s)"
| "foldM f (a # as) s = obind (f a s) (foldM f as)"

text \<open>
  \<^verbatim>\<open>calc_control_and_trajectory\<close> of \<^verbatim>\<open>dwa_3d.py\<close>. \<open>update_best_3d\<close> is the block
  \<^verbatim>\<open>if min_cost >= final_cost: ...\<close> (lines 192 to 202) on the search state
  \<open>(min_cost, best_u, best_trajectory)\<close>, \<open>candidate_3d\<close> the body of the inner loop,
  and the function itself the two nested loops over the grids.
\<close>

definition update_best_3d ::
  "Config \<Rightarrow> real list \<Rightarrow> real \<Rightarrow> real \<Rightarrow> ndarray \<Rightarrow> fl \<Rightarrow> fl \<times> real list \<times> ndarray
     \<Rightarrow> error + fl \<times> real list \<times> ndarray" where
  "update_best_3d config x v y trajectory cost st =
     (case st of (min_cost, best_u, best_trajectory) \<Rightarrow>
        if fl_ge min_cost cost then
          (if \<bar>v\<bar> < robot_stuck_flag_cons config then
             rbind (getitem x 4) (\<lambda>x4.
               if \<bar>x4\<bar> < robot_stuck_flag_cons config
               then Inr (cost, [v, - max_delta_yaw_rate config], trajectory)
               else Inr (cost, [v, y], trajectory))
           else Inr (cost, [v, y], trajectory))
        else Inr (min_cost, best_u, best_trajectory))"

definition candidate_3d ::
  "Config \<Rightarrow> real list \<Rightarrow> real \<times> real \<Rightarrow> (real \<times> real) list \<Rightarrow> real \<Rightarrow> real
     \<Rightarrow> fl \<times> real list \<times> ndarray \<Rightarrow> (error + fl \<times> real list \<times> ndarray) option" where
  "candidate_3d config x goal ob' v y st =
     obind (predict_trajectory_3d x v y config) (\<lambda>trajectory.
       case trajectory of
         A2 t \<Rightarrow> Some (rbind (final_cost config t goal ob')
                        (\<lambda>cost. update_best_3d config x v y trajectory cost st))
       | _ \<Rightarrow> Some (Inl IndexError))"

definition calc_control_and_trajectory_3d ::
  "real list \<Rightarrow> real list \<Rightarrow> Config \<Rightarrow> real \<times> real \<Rightarrow> (real \<times> real) list
     \<Rightarrow> (error + real list \<times> ndarray) option" where
  "calc_control_and_trajectory_3d x dw config goal ob' =
     obind (Some (rbind (getitem dw 0) (\<lambda>d0. rbind (getitem dw 1) (\<lambda>d1.
              arange d0 d1 (v_resolution config))))) (\<lambda>vs.
     obind (foldM (\<lambda>v st.
              obind (Some (rbind (getitem dw 2) (\<lambda>d2. rbind (getitem dw 3) (\<lambda>d3.
                       arange d2 d3 (yaw_rate_resolution config))))) (\<lambda>ys.
              foldM (\<lambda>y. candidate_3d config x goal ob' v y) ys st))
            vs (PInf, [0, 0], A2 [x])) (\<lambda>(min_cost, best_u, best_trajectory).
     Some (Inr (best_u, best_trajectory))))"

definition dwa_control_3d ::
  "real list \<Rightarrow> Config \<Rightarrow> real \<times> real \<Rightarrow> (real \<times> real) list \<Rightarrow> (error + real list \<times> ndarray) option" where
  "dwa_control_3d x config goal ob' =
     obind (Some (calc_dynamic_window_3d x config)) (\<lambda>dw.
       calc_control_and_trajectory_3d x dw config goal ob')"

text \<open>
  \<^verbatim>\<open>calc_control_and_trajectory\<close> of \<^verbatim>\<open>dwa_flocking.py\<close>: the same search inside a loop
  over the six agents. \<open>update_best_flock\<close> is the block
  \<^verbatim>\<open>if min_cost >= final_cost: ...\<close> (lines 201 to 211), \<open>candidate_flock\<close> the body of
  the innermost loop. \<open>min_cost\<close> is initialised once, before the loop over the agents,
  and the cost of a candidate of agent \<open>n\<close> is computed from the whole stacked trajectory.
\<close>

definition update_best_flock ::
  "Config \<Rightarrow> real list list \<Rightarrow> nat \<Rightarrow> real \<Rightarrow> real \<Rightarrow> real list list \<Rightarrow> fl
     \<Rightarrow> fl \<times> real list list \<times> ndarray \<Rightarrow> error + fl \<times> real list list \<times> ndarray" where
  "update_best_flock config x n v y trajectory cost st =
     (case st of (min_cost, best_u, best_trajectory) \<Rightarrow>
        if fl_ge min_cost cost then
          rbind (setitem best_u n [v, y]) (\<lambda>best_u'.
            if \<bar>v\<bar> < robot_stuck_flag_cons config then
              rbind (getitem2 x n 3) (\<lambda>xn3.
                if \<bar>xn3\<bar> < robot_stuck_flag_cons config
                then rbind (setitem best_u' n [v, - max_delta_yaw_rate config])
                       (\<lambda>best_u''. Inr (cost, best_u'', A2 trajectory))
                else Inr (cost, best_u', A2 trajectory))
            else Inr (cost, best_u', A2 trajectory))
        else Inr (min_cost, best_u, best_trajectory))"

definition candidate_flock ::
  "Config \<Rightarrow> real list list \<Rightarrow> real \<times> real \<Rightarrow> (real \<times> real) list \<Rightarrow> nat \<Rightarrow> real \<Rightarrow> real
     \<Rightarrow> fl \<times> real list list \<times> ndarray \<Rightarrow> (error + fl \<times> real list list \<times> ndarray) option" where
  "candidate_flock config x goal ob' n v y st =
     obind (predict_trajectory_flock x n v y config) (\<lambda>trajectory.
       Some (rbind (final_cost config trajectory goal ob')
               (\<lambda>cost. update_best_flock config x n v y trajectory cost st)))"

definition calc_control_and_trajectory_flock ::
  "real list list \<Rightarrow> real list list \<Rightarrow> Config \<Rightarrow> real \<times> real \<Rightarrow> (real \<times> real) list
     \<Rightarrow> (error + real list list \<times> ndarray) option" where
  "calc_control_and_trajectory_flock x dw config goal ob' =
     obind (foldM (\<lambda>n st.
              obind (Some (rbind (getitem dw n) (\<lambda>dwn. rbind (getitem dwn 0) (\<lambda>d0.
                       rbind (getitem dwn 1) (\<lambda>d1. arange d0 d1 (v_resolution config)))))) (\<lambda>vs.
              foldM (\<lambda>v st.
                 obind (Some (rbind (getitem dw n) (\<lambda>dwn. rbind (getitem dwn 2) (\<lambda>d2.
                          rbind (getitem dwn 3) (\<lambda>d3. arange d2 d3 (yaw_rate_resolution config)))))) (\<lambda>ys.
                 foldM (\<lambda>y. candidate_flock config x goal ob' n v y) ys st))
               vs st))
            [0..<6] (PInf, replicate 6 [0, 0], A3 [x])) (\<lambda>(min_cost, best_u, best_trajectory).
     Some (Inr (best_u, best_trajectory)))"

definition dwa_control_flock ::
  "real list list \<Rightarrow> Config \<Rightarrow> real \<times> real \<Rightarrow> (real \<times> real) list
     \<Rightarrow> (error + real list list \<times> ndarray) option" where
  "dwa_control_flock x config goal ob' =
     obind (Some (calc_dynamic_window_flock x config)) (\<lambda>dw.
       calc_control_and_trajectory_flock x dw config goal ob')"

subsection \<open>Control steps and the goal loop\<close>

text \<open>
  One pass of the body of a goal loop of \<^verbatim>\<open>main\<close> in \<^verbatim>\<open>dwa_3d.py\<close>, up to the state
  advance: \<^verbatim>\<open>u, predicted_trajectory = dwa_control(x, config, goal, ob)\<close> and then
  \<^verbatim>\<open>x = motion(x, u, config.dt)\<close>.
\<close>

definition control_step_3d ::
  "real list \<Rightarrow> Config \<Rightarrow> real \<times> real \<Rightarrow> (real \<times> real) list \<Rightarrow> (error + real list) option" where
  "control_step_3d x config goal ob' =
     obind (dwa_control_3d x config goal ob') (\<lambda>(u, predicted_trajectory).
       Some (motion_3d x u (dt config)))"

text \<open>
  The first goal loop of \<^verbatim>\<open>main\<close> in \<^verbatim>\<open>dwa_flocking.py\<close> (lines 298 to 326).
  \<open>advance_flock\<close> is \<^verbatim>\<open>for n in range(6): x = motion(x, n, u[n], config.dt)\<close>;
  \<open>goal_scan_flock\<close> is the scan \<^verbatim>\<open>for n in range(6): ... break\<close>, whose result says
  whether it stopped at an agent within the radius. The \<^verbatim>\<open>break\<close> leaves the scan only:
  the enclosing \<^verbatim>\<open>while True\<close> has no exit, so the loop function has no returning branch.
\<close>

fun advance_flock :: "real list list \<Rightarrow> real list list \<Rightarrow> real \<Rightarrow> nat list \<Rightarrow> error + real list list" where
  "advance_flock x u dt' [] = Inr x"
| "advance_flock x u dt' (n # ns) =
     rbind (getitem u n) (\<lambda>un. rbind (motion_flock x n un dt') (\<lambda>x'. advance_flock x' u dt' ns))"

fun goal_scan_flock :: "real list list \<Rightarrow> real \<times> real \<Rightarrow> Config \<Rightarrow> nat list \<Rightarrow> error + bool" where
  "goal_scan_flock x goal config [] = Inr False"
| "goal_scan_flock x goal config (n # ns) =
     rbind (getitem2 x n 0) (\<lambda>xn0. rbind (getitem2 x n 1) (\<lambda>xn1.
       let dist_to_goal = hypot (xn0 - fst goal) (xn1 - snd goal)
       in if dist_to_goal \<le> robot_radius config then Inr True
          else goal_scan_flock x goal config ns))"

partial_function (option) goal1_loop_flock ::
  "Config \<Rightarrow> real \<times> real \<Rightarrow> (real \<times> real) list \<Rightarrow> real list list \<Rightarrow> real list list
     \<Rightarrow> (error + real list list \<times> real list list) option" where
  "goal1_loop_flock config goal1 ob' x trajectory =
     (case dwa_control_flock x config goal1 ob' of
        None \<Rightarrow> None
      | Some (Inl e) \<Rightarrow> Some (Inl e)
      | Some (Inr (u, predicted_trajectory)) \<Rightarrow>
         (case advance_flock x u (dt config) [0..<6] of
            Inl e \<Rightarrow> Some (Inl e)
          | Inr x' \<Rightarrow>
             (case goal_scan_flock x' goal1 config [0..<6] of
                Inl e \<Rightarrow> Some (Inl e)
              | Inr reached \<Rightarrow> goal1_loop_flock config goal1 ob' x' (trajectory @ x'))))"

subsection \<open>Configurations\<close>

text \<open>
  The values \<^verbatim>\<open>Config.__init__\<close> assigns (the same in both files, the obstacle array
  apart, which every function receives as its own argument). They are doubles: a decimal
  literal that is not a double (\<^verbatim>\<open>0.1\<close>) is the double nearest to it, \<^verbatim>\<open>math.pi\<close> is the
  double nearest to \<open>\<pi>\<close>, and each product and quotient is rounded.
\<close>

definition default_config :: Config where
  "default_config =
     \<lparr>max_speed = round_double 0.8, min_speed = - 0.5,
      max_yaw_rate = round_double (round_double (60 * round_double pi) / 180),
      max_accel = round_double 0.2,
      max_delta_yaw_rate = round_double (round_double (40 * round_double pi) / 180),
      v_resolution = round_double 0.01,
      yaw_rate_resolution = round_double (round_double (1 * round_double pi) / 180),
      dt = round_double 0.1, predict_time = 1.5,
      to_goal_cost_gain = round_double 0.15, speed_cost_gain = 1, obstacle_cost_gain = 1,
      robot_stuck_flag_cons = round_double 0.0001, robot_type = circle,
      robot_radius = 0.5, robot_width = 0.5, robot_length = round_double 1.2\<rparr>"

text \<open>
  A configuration with unit time step and a horizon of one tick, on which the functions
  can be traced by hand.
\<close>

definition unit_config :: Config where
  "unit_config =
     \<lparr>max_speed = 1, min_speed = 0, max_yaw_rate = 1,
      max_accel = 1, max_delta_yaw_rate = 1,
      v_resolution = 1 / 2, yaw_rate_resolution = 1,
      dt = 1, predict_time = 0,
      to_goal_cost_gain = 1, speed_cost_gain = 1, obstacle_cost_gain = 1,
      robot_stuck_flag_cons = 1 / 10000, robot_type = circle,
      robot_radius = 1 / 2, robot_width = 1 / 2, robot_length = 6 / 5\<rparr>"

subsection \<open>Example inputs of the flocking search\<close>

text \<open>
  Six agents at rest with heading \<open>0\<close>: the first five at the origin, the last at \<open>(p, 0)\<close>.
\<close>

definition line_state :: "real \<Rightarrow> real list list" where
  "line_state p = [[0, 0, 0, 0, 0], [0, 0, 0, 0, 0], [0, 0, 0, 0, 0],
                   [0, 0, 0, 0, 0], [0, 0, 0, 0, 0], [p, 0, 0, 0, 0]]"

text \<open>
  Window lists for the six agents: a window \<open>[0, 1, 0, 1]\<close> for the first agent only, a
  window \<open>[1/2, 1, 0, 1]\<close> for the second agent only, and both; the other windows are
  empty. With the resolutions of \<open>unit_config\<close> the first window holds the candidates
  \<open>(0, 0)\<close> and \<open>(1/2, 0)\<close>, the second the candidate \<open>(1/2, 0)\<close>.
\<close>

definition first_agent_windows :: "real list list" where
  "first_agent_windows = [[0, 1, 0, 1], [0, 0, 0, 0], [0, 0, 0, 0],
                          [0, 0, 0, 0], [0, 0, 0, 0], [0, 0, 0, 0]]"

definition second_agent_windows :: "real list list" where
  "second_agent_windows = [[0, 0, 0, 0], [1 / 2, 1, 0, 1], [0, 0, 0, 0],
                           [0, 0, 0, 0], [0, 0, 0, 0], [0, 0, 0, 0]]"

definition both_agents_windows :: "real list list" where
  "both_agents_windows = [[0, 1, 0, 1], [1 / 2, 1, 0, 1], [0, 0, 0, 0],
                          [0, 0, 0, 0], [0, 0, 0, 0], [0, 0, 0, 0]]"

subsection \<open>The candidates of the flocking search\<close>

text \<open>
  The candidates \<open>(n, v, y)\<close> of \<^verbatim>\<open>calc_control_and_trajectory\<close> of \<^verbatim>\<open>dwa_flocking.py\<close>
  in the order in which the three nested loops score them: agent by agent, and for each
  agent velocity by velocity. The grids are the ones the loops build; a grid that raises
  leaves no list.
\<close>

definition grid_flock :: "real list list \<Rightarrow> Config \<Rightarrow> error + (nat \<times> real \<times> real) list" where
  "grid_flock dw config =
     rbind (mapM (\<lambda>n.
              rbind (rbind (getitem dw n) (\<lambda>dwn. rbind (getitem dwn 0) (\<lambda>d0.
                       rbind (getitem dwn 1) (\<lambda>d1. arange d0 d1 (v_resolution config))))) (\<lambda>vs.
              rbind (mapM (\<lambda>v.
                       rbind (rbind (getitem dw n) (\<lambda>dwn. rbind (getitem dwn 2) (\<lambda>d2.
                                rbind (getitem dwn 3) (\<lambda>d3. arange d2 d3 (yaw_rate_resolution config))))) (\<lambda>ys.
                       Inr (map (\<lambda>y. (n, v, y)) ys)))
                     vs) (\<lambda>rows. Inr (concat rows))))
            [0..<6]) (\<lambda>agents. Inr (concat agents))"

text \<open>
  The test \<^verbatim>\<open>min_cost >= final_cost\<close> of the candidate \<open>(n, v, y)\<close> on the search state
  \<open>st\<close>: the candidate is simulated and scored, and its cost is not above the
  \<open>min_cost\<close> of the state, so the selection block is entered.
\<close>

definition accepts_flock ::
  "Config \<Rightarrow> real list list \<Rightarrow> real \<times> real \<Rightarrow> (real \<times> real) list \<Rightarrow> nat \<Rightarrow> real \<Rightarrow> real
     \<Rightarrow> fl \<times> real list list \<times> ndarray \<Rightarrow> bool" where
  "accepts_flock config x goal ob' n v y st =
     (case predict_trajectory_flock x n v y config of
        Some (Inr trajectory) \<Rightarrow>
          (case final_cost config trajectory goal ob' of
             Inr cost \<Rightarrow> fl_ge (fst st) cost
           | Inl e \<Rightarrow> False)
      | _ \<Rightarrow> False)"

subsection \<open>The time of the prediction loop\<close>

text \<open>
  The value of \<^verbatim>\<open>time\<close> when \<^verbatim>\<open>while time <= config.predict_time\<close> is checked for the
  \<open>k\<close>-th time, counted from \<open>0\<close>: it starts at \<open>0\<close> and every pass adds the time step.
\<close>

primrec loop_time :: "Config \<Rightarrow> nat \<Rightarrow> real" where
  "loop_time config 0 = 0"
| "loop_time config (Suc k) = fadd (loop_time config k) (dt config)"

section \<open>Properties\<close>

subsection \<open>Sequencing\<close>

lemma rbind_Inl: "rbind (Inl e) f = Inl e"
  by (simp add: rbind_def)

lemma rbind_Inr: "rbind (Inr a) f = f a"
  by (simp add: rbind_def)

lemma obind_None: "obind None f = None"
  by (simp add: obind_def)

lemma obind_Inl: "obind (Some (Inl e)) f = Some (Inl e)"
  by (simp add: obind_def)

lemma obind_Inr: "obind (Some (Inr a)) f = f a"
  by (simp add: obind_def)

subsection \<open>The motion model of both files\<close>

lemma motion_3d_ok:
  assumes "7 \<le> length x" "3 \<le> length u"
  shows "motion_3d x u dt' =
     Inr (x[3 := x ! 3 + u ! 1 * dt',
            0 := x ! 0 + u ! 0 * cos (x ! 3 + u ! 1 * dt') * dt',
            1 := x ! 1 + u ! 0 * sin (x ! 3 + u ! 1 * dt') * dt',
            2 := 1, 4 := u ! 0, 5 := u ! 1, 6 := u ! 2])"
  using assms by (auto simp add: motion_3d_def getitem_def setitem_def rbind_Inl rbind_Inr)

lemma motion_3d_short_u: "length u < 3 \<Longrightarrow> motion_3d x u dt' = Inl IndexError"
  by (simp add: motion_3d_def getitem_def setitem_def rbind_def split: sum.splits)

lemma motion_3d_short_x: "length x < 7 \<Longrightarrow> motion_3d x u dt' = Inl IndexError"
  by (simp add: motion_3d_def getitem_def setitem_def rbind_def split: sum.splits)

lemma motion_flock_ok:
  assumes "n < length x" "5 \<le> length (x ! n)" "2 \<le> length u"
  shows "motion_flock x n u dt' =
     Inr (x[n := (x ! n)[2 := x ! n ! 2 + u ! 1 * dt',
                        0 := x ! n ! 0 + u ! 0 * cos (x ! n ! 2 + u ! 1 * dt') * dt',
                        1 := x ! n ! 1 + u ! 0 * sin (x ! n ! 2 + u ! 1 * dt') * dt',
                        3 := u ! 0, 4 := u ! 1]])"
  using assms
  by (auto simp add: motion_flock_def getitem2_def setitem2_def getitem_def setitem_def
      rbind_Inl rbind_Inr)

subsection \<open>The search of the single-robot file\<close>

text \<open>
  Every tick of the simulator of \<^verbatim>\<open>dwa_3d.py\<close> calls the motion model with the
  two-element command \<^verbatim>\<open>[v, y]\<close>, so no candidate is ever scored there.
\<close>

lemma predict_trajectory_3d_eq:
  "predict_trajectory_3d x v y config =
     Some (if 0 \<le> predict_time config then Inl IndexError else Inr (A1 x))"
  unfolding predict_trajectory_3d_def
  by (subst predict_loop_3d.simps) (simp add: motion_3d_short_u)

lemma candidate_3d_raises: "candidate_3d config x goal ob' v y st = Some (Inl IndexError)"
  by (simp add: candidate_3d_def predict_trajectory_3d_eq obind_Inl obind_Inr)

lemma foldM_candidate_3d:
  "foldM (\<lambda>y. candidate_3d config x goal ob' v y) ys st =
     (if ys = [] then Some (Inr st) else Some (Inl IndexError))"
  by (cases ys) (simp_all add: candidate_3d_raises obind_Inl)

lemma foldM_const_Inr:
  "(\<And>a. f a s = Some (Inr s)) \<Longrightarrow> foldM f as s = Some (Inr s)"
  by (induction as) (simp_all add: obind_Inr)

lemma foldM_first_Inl:
  "as \<noteq> [] \<Longrightarrow> (\<And>a. f a s = Some (Inl e)) \<Longrightarrow> foldM f as s = Some (Inl e)"
  by (cases as) (simp_all add: obind_Inl)

lemma arange_zero_step: "arange a b 0 = Inl ValueError"
  by (simp add: arange_def)

lemma arange_empty: "0 < s \<Longrightarrow> b \<le> a \<Longrightarrow> arange a b s = Inr []"
  by (simp add: arange_def divide_nonpos_pos)

lemma arange_nonempty: "0 < s \<Longrightarrow> a < b \<Longrightarrow> \<exists>vs. arange a b s = Inr (a # vs)"
proof -
  assume s: "0 < s" and ab: "a < b"
  then have "0 < (b - a) / s" by simp
  then have "0 < nat \<lceil>(b - a) / s\<rceil>" by simp
  then obtain k where k: "nat \<lceil>(b - a) / s\<rceil> = Suc k" by (cases "nat \<lceil>(b - a) / s\<rceil>") auto
  show ?thesis using s by (simp add: arange_def k upt_rec[of 0] del: upt_Suc)
qed

lemma search_3d_eq:
  "calc_control_and_trajectory_3d x [a, b, c, d] config goal ob' =
     (case arange a b (v_resolution config) of
        Inl e \<Rightarrow> Some (Inl e)
      | Inr vs \<Rightarrow>
         if vs = [] then Some (Inr ([0, 0], A2 [x]))
         else (case arange c d (yaw_rate_resolution config) of
                 Inl e \<Rightarrow> Some (Inl e)
               | Inr ys \<Rightarrow> if ys = [] then Some (Inr ([0, 0], A2 [x]))
                           else Some (Inl IndexError)))"
proof (cases "arange a b (v_resolution config)")
  case (Inl e)
  then show ?thesis
    by (simp add: calc_control_and_trajectory_3d_def getitem_def rbind_Inr obind_Inl)
next
  case (Inr vs)
  note vs = this
  show ?thesis
  proof (cases "vs = []")
    case True
    with vs show ?thesis
      by (simp add: calc_control_and_trajectory_3d_def getitem_def rbind_Inr obind_Inr)
  next
    case False
    note ne = this
    show ?thesis
    proof (cases "arange c d (yaw_rate_resolution config)")
      case (Inl e)
      have "foldM (\<lambda>v st. obind (Some (rbind (getitem [a, b, c, d] 2) (\<lambda>d2. rbind (getitem [a, b, c, d] 3) (\<lambda>d3.
                       arange d2 d3 (yaw_rate_resolution config))))) (\<lambda>ys.
              foldM (\<lambda>y. candidate_3d config x goal ob' v y) ys st)) vs (PInf, [0, 0], A2 [x])
            = Some (Inl e)"
        by (rule foldM_first_Inl[OF ne]) (simp add: getitem_def rbind_Inr Inl obind_Inl)
      with vs ne Inl show ?thesis
        by (simp add: calc_control_and_trajectory_3d_def getitem_def rbind_Inr obind_Inr obind_Inl)
    next
      case (Inr ys)
      note ys = this
      show ?thesis
      proof (cases "ys = []")
        case True
        have "foldM (\<lambda>v st. obind (Some (rbind (getitem [a, b, c, d] 2) (\<lambda>d2. rbind (getitem [a, b, c, d] 3) (\<lambda>d3.
                       arange d2 d3 (yaw_rate_resolution config))))) (\<lambda>ys.
              foldM (\<lambda>y. candidate_3d config x goal ob' v y) ys st)) vs (PInf, [0, 0], A2 [x])
            = Some (Inr (PInf, [0, 0], A2 [x]))"
          by (rule foldM_const_Inr) (simp add: getitem_def rbind_Inr ys True obind_Inr)
        with vs ne ys True show ?thesis
          by (simp add: calc_control_and_trajectory_3d_def getitem_def rbind_Inr obind_Inr)
      next
        case False
        have "foldM (\<lambda>v st. obind (Some (rbind (getitem [a, b, c, d] 2) (\<lambda>d2. rbind (getitem [a, b, c, d] 3) (\<lambda>d3.
                       arange d2 d3 (yaw_rate_resolution config))))) (\<lambda>ys.
              foldM (\<lambda>y. candidate_3d config x goal ob' v y) ys st)) vs (PInf, [0, 0], A2 [x])
            = Some (Inl IndexError)"
          by (rule foldM_first_Inl[OF ne])
             (simp add: getitem_def rbind_Inr ys False obind_Inr foldM_candidate_3d)
        with vs ne ys False show ?thesis
          by (simp add: calc_control_and_trajectory_3d_def getitem_def rbind_Inr obind_Inr obind_Inl)
      qed
    qed
  qed
qed

lemma calc_dynamic_window_3d_short: "length x < 6 \<Longrightarrow> calc_dynamic_window_3d x config = Inl IndexError"
  by (auto simp add: calc_dynamic_window_3d_def getitem_def rbind_Inl rbind_Inr Let_def)

lemma calc_dynamic_window_3d_ok:
  "6 \<le> length x \<Longrightarrow> calc_dynamic_window_3d x config =
     Inr [max (min_speed config) (x ! 4 - max_accel config * dt config),
          min (max_speed config) (x ! 4 + max_accel config * dt config),
          max (- max_yaw_rate config) (x ! 5 - max_delta_yaw_rate config * dt config),
          min (max_yaw_rate config) (x ! 5 + max_delta_yaw_rate config * dt config)]"
  by (simp add: calc_dynamic_window_3d_def getitem_def rbind_Inr Let_def)

lemma search_3d_returns_default:
  "calc_control_and_trajectory_3d x [a, b, c, d] config goal ob' = Some (Inr r)
     \<Longrightarrow> r = ([0, 0], A2 [x])"
  by (auto simp add: search_3d_eq split: sum.splits if_splits)

lemma search_3d_returns: "\<exists>r. calc_control_and_trajectory_3d x [a, b, c, d] config goal ob' = Some r"
  by (auto simp add: search_3d_eq split: sum.splits if_splits)

text \<open>
  C1. The claim: one tick adds \<open>\<omega> \<cdot> dt\<close> to the heading, then \<open>v \<cdot> cos(heading) \<cdot> dt\<close> and
  \<open>v \<cdot> sin(heading) \<cdot> dt\<close> to the position, stores \<open>(v, \<omega>)\<close> in the velocity fields, and the
  cost evaluators read heading and velocity from the fields the model wrote. Evaluated on
  the zero state with the command \<open>v = 2\<close>, \<open>\<omega> = 0\<close> and \<open>dt = 1\<close>: the model of
  \<^verbatim>\<open>dwa_3d.py\<close> leaves the heading \<open>0\<close> at index 3 and the velocity \<open>2\<close> at index 4,
  while the evaluators read column 2 (the constant \<open>1\<close>) as heading and column 3 (the
  heading) as velocity; with the two-element command it raises. The model of
  \<^verbatim>\<open>dwa_flocking.py\<close> writes the columns the evaluators read.
\<close>

theorem C1_motion_3d_fields:
  "motion_3d [0, 0, 0, 0, 0, 0, 0] [2, 0, 0] 1 = Inr [2, 0, 1, 0, 2, 0, 0]
   \<and> last_row_get [[2, 0, 1, 0, 2, 0, 0]] 2 = Inr 1
   \<and> last_row_get [[2, 0, 1, 0, 2, 0, 0]] 3 = Inr 0
   \<and> motion_3d [0, 0, 0, 0, 0, 0, 0] [2, 0] 1 = Inl IndexError
   \<and> motion_flock [[0, 0, 0, 0, 0]] 0 [2, 0] 1 = Inr [[2, 0, 0, 2, 0]]"
  by (simp add: motion_3d_ok motion_3d_short_u motion_flock_ok last_row_get_def getitem_def)

lemma dwa_control_3d_initial_state:
  "dwa_control_3d [2.5, - 5, 0, 0, 0] default_config (26.5, - 5) ob' = Some (Inl IndexError)"
  by (simp add: dwa_control_3d_def calc_dynamic_window_3d_short obind_Inl)

text \<open>
  C2. The claim: one full control step (window, search, selection, one-tick advance)
  completes without raising, and the motion model only touches indices that exist. In
  \<^verbatim>\<open>dwa_3d.py\<close> every control step raises, whatever the state, the configuration, the
  goal and the obstacles: the window needs index 5 of the state, every scored candidate
  needs \<^verbatim>\<open>u[2]\<close> of a two-element command, and so does the state advance. On the
  initial state of \<^verbatim>\<open>main\<close> the window computation already raises
  (\<open>dwa_control_3d_initial_state\<close>).
\<close>

theorem C2_control_step_3d_raises: "\<exists>e. control_step_3d x config goal ob' = Some (Inl e)"
proof (cases "length x < 6")
  case True
  then show ?thesis
    by (simp add: control_step_3d_def dwa_control_3d_def calc_dynamic_window_3d_short obind_Inl)
next
  case False
  then have len: "6 \<le> length x" by simp
  let ?dw = "[max (min_speed config) (x ! 4 - max_accel config * dt config),
          min (max_speed config) (x ! 4 + max_accel config * dt config),
          max (- max_yaw_rate config) (x ! 5 - max_delta_yaw_rate config * dt config),
          min (max_yaw_rate config) (x ! 5 + max_delta_yaw_rate config * dt config)]"
  obtain r where r: "calc_control_and_trajectory_3d x ?dw config goal ob' = Some r"
    using search_3d_returns by blast
  show ?thesis
  proof (cases r)
    case (Inl e)
    with r len show ?thesis
      by (simp add: control_step_3d_def dwa_control_3d_def calc_dynamic_window_3d_ok obind_Inl obind_Inr)
  next
    case (Inr p)
    with r have "p = ([0, 0], A2 [x])" using search_3d_returns_default by blast
    with r Inr len show ?thesis
      by (simp add: control_step_3d_def dwa_control_3d_def calc_dynamic_window_3d_ok obind_Inr
          motion_3d_short_u)
  qed
qed

subsection \<open>The obstacle cost\<close>









text \<open>
  C10 as stated: with an empty obstacle set the obstacle cost is well defined and the
  obstacle term adds \<open>0\<close> to the total cost. On the code the evaluation raises, and so
  does the total cost of the candidate: the distance matrix has no entry, no entry is
  within the radius, and \<^verbatim>\<open>np.min\<close> of it raises.
\<close>

theorem C10_empty_obstacle_set_counterexample:
  "calc_obstacle_cost [[1, - 1, 0, 0, 0]] [] default_config = Inl ValueError
   \<and> final_cost default_config [[1, - 1, 0, 0, 0]] (26.5, - 5) [] = Inl ValueError"
  by (simp add: final_cost_def calc_to_goal_cost_def calc_obstacle_cost_def column_def
      last_row_get_def getitem_def distances_def rbind_Inl rbind_Inr Let_def)

text \<open>
  C10, amended: with an empty obstacle set the obstacle-cost evaluation never signals a
  collision and returns no cost at all: it raises (\<^verbatim>\<open>ValueError\<close> from \<^verbatim>\<open>np.min\<close>, or
  \<^verbatim>\<open>IndexError\<close> when the trajectory lacks a position column).
\<close>

theorem C10_empty_obstacle_set_raises: "\<exists>e. calc_obstacle_cost trajectory [] config = Inl e"
  by (cases "column trajectory 0"; cases "column trajectory 1")
     (simp_all add: calc_obstacle_cost_def rbind_Inl rbind_Inr distances_def)

subsection \<open>The dynamic window of the single-robot file\<close>




subsection \<open>Double arithmetic: evaluation\<close>

lemma round_double_eval:
  assumes "0 < x" and "2 powr of_int e \<le> x" and "x < 2 powr (of_int e + 1)" and "- 1022 \<le> e"
  shows "round_double x
           = 2 powr (of_int e - 52) * of_int (round_half_even (x / 2 powr (of_int e - 52)))"
proof -
  have "\<lfloor>log 2 x\<rfloor> = e"
    using assms(1-3) by (simp add: floor_log_eq_powr_iff)
  then show ?thesis
    using assms(1,4) by (simp add: round_double_def Let_def max_def)
qed

lemma fadd_0_1: "fadd 0 1 = 1"
  using round_double_eval[of 1 0]
  by (simp add: fadd_def round_half_even_def Let_def powr_neg_numeral)

lemma fadd_1_1: "fadd 1 1 = 2"
  using round_double_eval[of 2 1]
  by (simp add: fadd_def round_half_even_def Let_def powr_neg_numeral)

text \<open>
  The literal \<^verbatim>\<open>0.1\<close> is the double \<open>3602879701896397 / 2 ^ 55\<close>, and fifteen additions
  of it to \<open>0\<close> give \<^verbatim>\<open>1.5000000000000002\<close>, the double after \<open>3 / 2\<close>.
\<close>

lemma round_double_tenth: "round_double (1 / 10) = 3602879701896397 / 36028797018963968"
  using round_double_eval[of "1 / 10" "- 4"]
  by (simp add: round_half_even_def Let_def powr_neg_numeral)

lemma fadd_tenth_0: "fadd 0 (3602879701896397 / 36028797018963968) = 3602879701896397 / 36028797018963968"
  using round_double_eval[of "3602879701896397 / 36028797018963968" "- 4"]
  by (simp add: fadd_def round_half_even_def Let_def powr_neg_numeral)

lemma fadd_tenth_1: "fadd (3602879701896397 / 36028797018963968) (3602879701896397 / 36028797018963968) = 3602879701896397 / 18014398509481984"
  using round_double_eval[of "3602879701896397 / 36028797018963968 + 3602879701896397 / 36028797018963968" "- 3"]
  by (simp add: fadd_def round_half_even_def Let_def powr_neg_numeral)

lemma fadd_tenth_2: "fadd (3602879701896397 / 18014398509481984) (3602879701896397 / 36028797018963968) = 1351079888211149 / 4503599627370496"
  using round_double_eval[of "3602879701896397 / 18014398509481984 + 3602879701896397 / 36028797018963968" "- 2"]
  by (simp add: fadd_def round_half_even_def Let_def powr_neg_numeral)

lemma fadd_tenth_3: "fadd (1351079888211149 / 4503599627370496) (3602879701896397 / 36028797018963968) = 3602879701896397 / 9007199254740992"
  using round_double_eval[of "1351079888211149 / 4503599627370496 + 3602879701896397 / 36028797018963968" "- 2"]
  by (simp add: fadd_def round_half_even_def Let_def powr_neg_numeral)

lemma fadd_tenth_4: "fadd (3602879701896397 / 9007199254740992) (3602879701896397 / 36028797018963968) = 1 / 2"
  using round_double_eval[of "3602879701896397 / 9007199254740992 + 3602879701896397 / 36028797018963968" "- 1"]
  by (simp add: fadd_def round_half_even_def Let_def powr_neg_numeral)

lemma fadd_tenth_5: "fadd (1 / 2) (3602879701896397 / 36028797018963968) = 5404319552844595 / 9007199254740992"
  using round_double_eval[of "1 / 2 + 3602879701896397 / 36028797018963968" "- 1"]
  by (simp add: fadd_def round_half_even_def Let_def powr_neg_numeral)

lemma fadd_tenth_6: "fadd (5404319552844595 / 9007199254740992) (3602879701896397 / 36028797018963968) = 3152519739159347 / 4503599627370496"
  using round_double_eval[of "5404319552844595 / 9007199254740992 + 3602879701896397 / 36028797018963968" "- 1"]
  by (simp add: fadd_def round_half_even_def Let_def powr_neg_numeral)

lemma fadd_tenth_7: "fadd (3152519739159347 / 4503599627370496) (3602879701896397 / 36028797018963968) = 7205759403792793 / 9007199254740992"
  using round_double_eval[of "3152519739159347 / 4503599627370496 + 3602879701896397 / 36028797018963968" "- 1"]
  by (simp add: fadd_def round_half_even_def Let_def powr_neg_numeral)

lemma fadd_tenth_8: "fadd (7205759403792793 / 9007199254740992) (3602879701896397 / 36028797018963968) = 2026619832316723 / 2251799813685248"
  using round_double_eval[of "7205759403792793 / 9007199254740992 + 3602879701896397 / 36028797018963968" "- 1"]
  by (simp add: fadd_def round_half_even_def Let_def powr_neg_numeral)

lemma fadd_tenth_9: "fadd (2026619832316723 / 2251799813685248) (3602879701896397 / 36028797018963968) = 9007199254740991 / 9007199254740992"
  using round_double_eval[of "2026619832316723 / 2251799813685248 + 3602879701896397 / 36028797018963968" "- 1"]
  by (simp add: fadd_def round_half_even_def Let_def powr_neg_numeral)

lemma fadd_tenth_10: "fadd (9007199254740991 / 9007199254740992) (3602879701896397 / 36028797018963968) = 4953959590107545 / 4503599627370496"
  using round_double_eval[of "9007199254740991 / 9007199254740992 + 3602879701896397 / 36028797018963968" "0"]
  by (simp add: fadd_def round_half_even_def Let_def powr_neg_numeral)

lemma fadd_tenth_11: "fadd (4953959590107545 / 4503599627370496) (3602879701896397 / 36028797018963968) = 5404319552844595 / 4503599627370496"
  using round_double_eval[of "4953959590107545 / 4503599627370496 + 3602879701896397 / 36028797018963968" "0"]
  by (simp add: fadd_def round_half_even_def Let_def powr_neg_numeral)

lemma fadd_tenth_12: "fadd (5404319552844595 / 4503599627370496) (3602879701896397 / 36028797018963968) = 5854679515581645 / 4503599627370496"
  using round_double_eval[of "5404319552844595 / 4503599627370496 + 3602879701896397 / 36028797018963968" "0"]
  by (simp add: fadd_def round_half_even_def Let_def powr_neg_numeral)

lemma fadd_tenth_13: "fadd (5854679515581645 / 4503599627370496) (3602879701896397 / 36028797018963968) = 6305039478318695 / 4503599627370496"
  using round_double_eval[of "5854679515581645 / 4503599627370496 + 3602879701896397 / 36028797018963968" "0"]
  by (simp add: fadd_def round_half_even_def Let_def powr_neg_numeral)

lemma fadd_tenth_14: "fadd (6305039478318695 / 4503599627370496) (3602879701896397 / 36028797018963968) = 6755399441055745 / 4503599627370496"
  using round_double_eval[of "6305039478318695 / 4503599627370496 + 3602879701896397 / 36028797018963968" "0"]
  by (simp add: fadd_def round_half_even_def Let_def powr_neg_numeral)

lemma dt_default_config: "dt default_config = 3602879701896397 / 36028797018963968"
  by (simp add: default_config_def round_double_tenth)

lemma loop_time_default_config:
  "loop_time default_config 0 = 0"
  "loop_time default_config 1 = 3602879701896397 / 36028797018963968"
  "loop_time default_config 2 = 3602879701896397 / 18014398509481984"
  "loop_time default_config 3 = 1351079888211149 / 4503599627370496"
  "loop_time default_config 4 = 3602879701896397 / 9007199254740992"
  "loop_time default_config 5 = 1 / 2"
  "loop_time default_config 6 = 5404319552844595 / 9007199254740992"
  "loop_time default_config 7 = 3152519739159347 / 4503599627370496"
  "loop_time default_config 8 = 7205759403792793 / 9007199254740992"
  "loop_time default_config 9 = 2026619832316723 / 2251799813685248"
  "loop_time default_config 10 = 9007199254740991 / 9007199254740992"
  "loop_time default_config 11 = 4953959590107545 / 4503599627370496"
  "loop_time default_config 12 = 5404319552844595 / 4503599627370496"
  "loop_time default_config 13 = 5854679515581645 / 4503599627370496"
  "loop_time default_config 14 = 6305039478318695 / 4503599627370496"
  "loop_time default_config 15 = 6755399441055745 / 4503599627370496"
  by (simp_all add: dt_default_config numeral_eq_Suc fadd_tenth_0 fadd_tenth_1 fadd_tenth_2 fadd_tenth_3 fadd_tenth_4 fadd_tenth_5 fadd_tenth_6 fadd_tenth_7 fadd_tenth_8 fadd_tenth_9 fadd_tenth_10 fadd_tenth_11 fadd_tenth_12 fadd_tenth_13 fadd_tenth_14)

subsection \<open>The trajectory simulator of the flocking file\<close>

lemma motion_flock_shape:
  assumes "n < length x" "5 \<le> length (x ! n)"
  shows "\<exists>x'. motion_flock x n [v, y] dt' = Inr x' \<and> length x' = length x
              \<and> length (x' ! n) = length (x ! n)"
  using assms by (simp add: motion_flock_ok)

lemma predict_loop_flock_stop:
  "\<not> time \<le> predict_time config \<Longrightarrow>
     predict_loop_flock config n u x trajectory time = Some (Inr trajectory)"
  by (subst predict_loop_flock.simps) simp

lemma predict_loop_flock_step:
  "time \<le> predict_time config \<Longrightarrow> motion_flock x n u (dt config) = Inr x' \<Longrightarrow>
     predict_loop_flock config n u x trajectory time =
       predict_loop_flock config n u x' (trajectory @ x') (fadd time (dt config))"
  by (subst predict_loop_flock.simps) simp

lemma predict_loop_flock_raise:
  "time \<le> predict_time config \<Longrightarrow> motion_flock x n u (dt config) = Inl e \<Longrightarrow>
     predict_loop_flock config n u x trajectory time = Some (Inl e)"
  by (subst predict_loop_flock.simps) simp

text \<open>
  Started at its \<open>j\<close>-th check, a loop whose next \<open>k\<close> checks succeed and whose check
  after them fails appends \<open>k\<close> samples and returns.
\<close>

lemma predict_loop_flock_length:
  "\<forall>i<k. loop_time config (j + i) \<le> predict_time config \<Longrightarrow>
   \<not> loop_time config (j + k) \<le> predict_time config \<Longrightarrow>
   n < length x \<Longrightarrow> 5 \<le> length (x ! n) \<Longrightarrow>
     \<exists>t. predict_loop_flock config n [v, y] x trajectory (loop_time config j) = Some (Inr t)
        \<and> length t = length trajectory + length x * k
        \<and> take (length trajectory) t = trajectory"
proof (induction k arbitrary: j x trajectory)
  case 0
  then show ?case by (simp add: predict_loop_flock_stop)
next
  case (Suc k)
  obtain x' where x': "motion_flock x n [v, y] (dt config) = Inr x'" "length x' = length x"
      "length (x' ! n) = length (x ! n)"
    using motion_flock_shape[OF Suc.prems(3,4)] by blast
  have le: "loop_time config j \<le> predict_time config"
    using Suc.prems(1) by force
  have later: "\<forall>i<k. loop_time config (Suc j + i) \<le> predict_time config"
  proof (intro allI impI)
    fix i assume "i < k"
    then have "loop_time config (j + Suc i) \<le> predict_time config"
      using Suc.prems(1) by (meson Suc_less_eq)
    then show "loop_time config (Suc j + i) \<le> predict_time config" by simp
  qed
  have stop: "\<not> loop_time config (Suc j + k) \<le> predict_time config"
    using Suc.prems(2) by simp
  have n: "n < length x'" "5 \<le> length (x' ! n)"
    using x' Suc.prems(3,4) by simp_all
  obtain t where t: "predict_loop_flock config n [v, y] x' (trajectory @ x') (loop_time config (Suc j)) = Some (Inr t)"
      "length t = length (trajectory @ x') + length x' * k"
      "take (length (trajectory @ x')) t = trajectory @ x'"
    using Suc.IH[OF later stop n] by blast
  have "predict_loop_flock config n [v, y] x trajectory (loop_time config j) = Some (Inr t)"
    using le x'(1) t(1) by (simp add: predict_loop_flock_step)
  moreover have "length t = length trajectory + length x * Suc k"
    using t(2) x'(2) by simp
  moreover have "take (length trajectory) t = trajectory"
  proof -
    have a: "take (length trajectory + length x') t = trajectory @ x'"
      using t(3) by simp
    have "take (length trajectory) (take (length trajectory + length x') t) = take (length trajectory) t"
      by (simp add: min_def)
    then show ?thesis unfolding a by simp
  qed
  ultimately show ?case by blast
qed

text \<open>
  C9 as stated: the simulator returns \<open>ceil(T / dt) + 1\<close> samples. With \<open>T = 1\<close> and
  \<open>dt = 1\<close> (doubles, and so are the sums \<open>0 + 1\<close> and \<open>1 + 1\<close>) the loop
  \<^verbatim>\<open>while time <= config.predict_time\<close> runs at the times \<open>0\<close> and \<open>1\<close>, so the
  trajectory holds three stacked states of the six agents, not two.
\<close>

theorem C9_sample_count_counterexample:
  "predict_trajectory_flock (line_state 0) 0 1 0 (unit_config\<lparr>predict_time := 1\<rparr>)
     = Some (Inr (line_state 0 @ (line_state 0)[0 := [1, 0, 0, 1, 0]]
                               @ (line_state 0)[0 := [2, 0, 0, 1, 0]]))
   \<and> length (line_state 0 @ (line_state 0)[0 := [1, 0, 0, 1, 0]]
                         @ (line_state 0)[0 := [2, 0, 0, 1, 0]]) = 3 * length (line_state 0)
   \<and> nat \<lceil>predict_time (unit_config\<lparr>predict_time := 1\<rparr>) / dt (unit_config\<lparr>predict_time := 1\<rparr>)\<rceil> + 1 = 2"
  by (simp add: predict_trajectory_flock_def predict_loop_flock_step predict_loop_flock_stop
      motion_flock_ok unit_config_def line_state_def fadd_0_1 fadd_1_1)

text \<open>
  C9, amended: the simulator of \<^verbatim>\<open>dwa_flocking.py\<close> returns one sample more than its loop
  makes passes. For every state matrix that has the row of the agent with its five columns,
  every command, time step and horizon: when the loop time (\<open>0\<close>, then increased by
  \<^verbatim>\<open>time += config.dt\<close> in double arithmetic) is at most \<open>T\<close> at the first \<open>N\<close> checks of
  \<^verbatim>\<open>while time <= config.predict_time\<close> and above \<open>T\<close> at the next one, the simulator returns
  the stack of exactly \<open>N + 1\<close> samples of the state matrix, the first of which is the
  initial state.
\<close>

theorem C9_predict_trajectory_flock_samples:
  assumes "\<forall>k<N. loop_time config k \<le> predict_time config"
    and "\<not> loop_time config N \<le> predict_time config"
    and "n < length x_init" and "5 \<le> length (x_init ! n)"
  shows "\<exists>trajectory. predict_trajectory_flock x_init n v y config = Some (Inr trajectory)
           \<and> length trajectory = length x_init * (N + 1)
           \<and> take (length x_init) trajectory = x_init"
  using predict_loop_flock_length[of N config 0 n x_init v y x_init] assms
  by (auto simp add: predict_trajectory_flock_def)

theorem C9_predict_trajectory_flock_samples_witness:
  "\<exists>trajectory. predict_trajectory_flock (line_state 0) 0 1 0 (unit_config\<lparr>predict_time := 1\<rparr>)
       = Some (Inr trajectory)
     \<and> length trajectory = 18 \<and> take 6 trajectory = line_state 0"
proof -
  have t: "loop_time (unit_config\<lparr>predict_time := 1\<rparr>) 0 = 0"
    "loop_time (unit_config\<lparr>predict_time := 1\<rparr>) 1 = 1"
    "loop_time (unit_config\<lparr>predict_time := 1\<rparr>) 2 = 2"
    by (simp_all add: unit_config_def numeral_eq_Suc fadd_0_1 fadd_1_1)
  have p: "predict_time (unit_config\<lparr>predict_time := 1\<rparr>) = 1"
    by simp
  have a: "\<forall>k<2. loop_time (unit_config\<lparr>predict_time := 1\<rparr>) k \<le> predict_time (unit_config\<lparr>predict_time := 1\<rparr>)"
    unfolding p using t(1,2) by (auto simp add: less_Suc_eq numeral_eq_Suc)
  have b: "\<not> loop_time (unit_config\<lparr>predict_time := 1\<rparr>) 2 \<le> predict_time (unit_config\<lparr>predict_time := 1\<rparr>)"
    unfolding p t(3) by simp
  have h: "0 < length (line_state 0)" "5 \<le> length (line_state 0 ! 0)"
    by (simp_all add: line_state_def)
  have l: "length (line_state 0) = 6" by (simp add: line_state_def)
  show ?thesis
    using C9_predict_trajectory_flock_samples[OF a b h, of 1 0] unfolding l by simp
qed

text \<open>
  On the configuration of \<^verbatim>\<open>Config.__init__\<close> (\<open>T = 1.5\<close>, \<open>dt = 0.1\<close>) the fifteenth
  sum is above the horizon, so the loop makes fifteen passes and the simulator returns
  sixteen samples; with exact sums it would make a sixteenth pass at \<open>time = 1.5\<close>.
\<close>

lemma predict_trajectory_flock_default_config:
  assumes "n < length x_init" and "5 \<le> length (x_init ! n)"
  shows "\<exists>trajectory. predict_trajectory_flock x_init n v y default_config = Some (Inr trajectory)
           \<and> length trajectory = length x_init * 16
           \<and> take (length x_init) trajectory = x_init"
proof -
  have p: "predict_time default_config = 3 / 2"
    by (simp add: default_config_def)
  have a: "\<forall>k<15. loop_time default_config k \<le> predict_time default_config"
    unfolding p
  proof (intro allI impI)
    fix k :: nat assume "k < 15"
    then have "k = 0 \<or> k = 1 \<or> k = 2 \<or> k = 3 \<or> k = 4 \<or> k = 5
             \<or> k = 6 \<or> k = 7 \<or> k = 8 \<or> k = 9 \<or> k = 10
             \<or> k = 11 \<or> k = 12 \<or> k = 13 \<or> k = 14"
      by presburger
    then show "loop_time default_config k \<le> 3 / 2"
      by (elim disjE) (simp_all add: loop_time_default_config dt_default_config fadd_tenth_0)
  qed
  have b: "\<not> loop_time default_config 15 \<le> predict_time default_config"
    unfolding p by (simp add: loop_time_default_config)
  show ?thesis
    using predict_loop_flock_length[of 15 default_config 0 n x_init v y x_init] a b assms
    by (auto simp add: predict_trajectory_flock_def)
qed

lemma loop_time_horizon: "loop_time (config\<lparr>predict_time := T\<rparr>) k = loop_time config k"
  by (induction k) simp_all

text \<open>
  With the horizon \<open>T = 1\<close> and the same time step the tenth sum is
  \<^verbatim>\<open>0.9999999999999999\<close>, not above the horizon, so the loop makes eleven passes and the
  simulator returns twelve samples.
\<close>

lemma predict_trajectory_flock_horizon_one:
  assumes "n < length x_init" and "5 \<le> length (x_init ! n)"
  shows "\<exists>trajectory. predict_trajectory_flock x_init n v y (default_config\<lparr>predict_time := 1\<rparr>)
             = Some (Inr trajectory)
           \<and> length trajectory = length x_init * 12
           \<and> take (length x_init) trajectory = x_init"
proof -
  have a: "\<forall>k<11. loop_time (default_config\<lparr>predict_time := 1\<rparr>) k
             \<le> predict_time (default_config\<lparr>predict_time := 1\<rparr>)"
    unfolding loop_time_horizon
  proof (intro allI impI)
    fix k :: nat assume "k < 11"
    then have "k = 0 \<or> k = 1 \<or> k = 2 \<or> k = 3 \<or> k = 4 \<or> k = 5
             \<or> k = 6 \<or> k = 7 \<or> k = 8 \<or> k = 9 \<or> k = 10"
      by presburger
    then show "loop_time default_config k \<le> predict_time (default_config\<lparr>predict_time := 1\<rparr>)"
      by (elim disjE) (simp_all add: loop_time_default_config dt_default_config fadd_tenth_0)
  qed
  have b: "\<not> loop_time (default_config\<lparr>predict_time := 1\<rparr>) 11
             \<le> predict_time (default_config\<lparr>predict_time := 1\<rparr>)"
    unfolding loop_time_horizon by (simp add: loop_time_default_config)
  show ?thesis
    using predict_loop_flock_length[of 11 "default_config\<lparr>predict_time := 1\<rparr>" 0 n x_init v y x_init]
      a b assms
    by (auto simp add: predict_trajectory_flock_def)
qed

text \<open>
  The count \<open>ceil(T / dt) + 1\<close> of the claim is \<open>16\<close> on the first of the two
  configurations and \<open>11\<close> on the second.
\<close>

lemma sample_formula_values:
  "nat \<lceil>predict_time default_config / dt default_config\<rceil> + 1 = 16"
  "nat \<lceil>predict_time (default_config\<lparr>predict_time := 1\<rparr>) / dt (default_config\<lparr>predict_time := 1\<rparr>)\<rceil> + 1 = 11"
  by (simp_all add: default_config_def round_double_tenth)

subsection \<open>The search of the flocking file: accepted candidates\<close>

lemma foldM_unchanged:
  "(\<And>a. a \<in> set as \<Longrightarrow> f a s = Some (Inr s)) \<Longrightarrow> foldM f as s = Some (Inr s)"
  by (induction as) (simp_all add: obind_Inr)

lemma foldM_invariant:
  assumes "\<And>a s s'. a \<in> set as \<Longrightarrow> I s \<Longrightarrow> f a s = Some (Inr s') \<Longrightarrow> I s'"
    and "I s" and "foldM f as s = Some (Inr s')"
  shows "I s'"
  using assms
proof (induction as arbitrary: s)
  case Nil
  then show ?case by simp
next
  case (Cons a as)
  from Cons.prems(3) obtain s1 where s1: "f a s = Some (Inr s1)" and rest: "foldM f as s1 = Some (Inr s')"
    by (auto simp add: obind_def split: option.splits sum.splits)
  have I1: "I s1" using Cons.prems(1)[of a s s1] Cons.prems(2) s1 by simp
  have step: "\<And>b t t'. b \<in> set as \<Longrightarrow> I t \<Longrightarrow> f b t = Some (Inr t') \<Longrightarrow> I t'"
    using Cons.prems(1) by (meson list.set_intros(2))
  show ?case by (rule Cons.IH[OF step I1 rest])
qed

lemma obind_Some_Inr:
  "obind m f = Some (Inr b) \<Longrightarrow> \<exists>a. m = Some (Inr a) \<and> f a = Some (Inr b)"
  by (auto simp add: obind_def split: option.splits sum.splits)

lemma rbind_Inr_iff:
  "rbind m f = Inr b \<Longrightarrow> \<exists>a. m = Inr a \<and> f a = Inr b"
  by (auto simp add: rbind_def split: sum.splits)

lemma obind_assoc: "obind (obind m f) g = obind m (\<lambda>a. obind (f a) g)"
  by (simp add: obind_def split: option.splits sum.splits)

text \<open>The three nested loops score the candidates of \<open>grid_flock\<close> one after the other.\<close>

lemma foldM_append: "foldM f (as @ bs) s = obind (foldM f as s) (foldM f bs)"
proof (induction as arbitrary: s)
  case Nil
  then show ?case by (simp add: obind_Inr)
next
  case (Cons a as)
  have "foldM f (as @ bs) = (\<lambda>s. obind (foldM f as s) (foldM f bs))"
    using Cons.IH by blast
  then show ?case by (simp add: obind_assoc)
qed

lemma foldM_triples:
  "foldM (\<lambda>y. C n v y) ys s = foldM (\<lambda>(n, v, y). C n v y) (map (\<lambda>y. (n, v, y)) ys) s"
proof (induction ys arbitrary: s)
  case Nil
  then show ?case by simp
next
  case (Cons y ys)
  have "foldM (\<lambda>y. C n v y) ys = foldM (\<lambda>(n, v, y). C n v y) (map (\<lambda>y. (n, v, y)) ys)"
    using Cons.IH by blast
  then show ?case by simp
qed

lemma foldM_rows:
  "mapM (\<lambda>v. rbind R (\<lambda>ys. Inr (map (\<lambda>y. (n, v, y)) ys))) vs = Inr rows \<Longrightarrow>
     foldM (\<lambda>v st. obind (Some R) (\<lambda>ys. foldM (\<lambda>y. C n v y) ys st)) vs s
       = foldM (\<lambda>(n, v, y). C n v y) (concat rows) s"
proof (induction vs arbitrary: rows s)
  case Nil
  then show ?case by auto
next
  case (Cons v vs)
  from Cons.prems obtain ys bs where R: "R = Inr ys"
      and bs: "mapM (\<lambda>v. rbind R (\<lambda>ys. Inr (map (\<lambda>y. (n, v, y)) ys))) vs = Inr bs"
      and rows: "rows = map (\<lambda>y. (n, v, y)) ys # bs"
    by (auto simp add: rbind_def split: sum.splits)
  have "foldM (\<lambda>v st. obind (Some R) (\<lambda>ys. foldM (\<lambda>y. C n v y) ys st)) vs
          = foldM (\<lambda>(n, v, y). C n v y) (concat bs)"
    using Cons.IH[OF bs] by blast
  then show ?case
    unfolding rows by (simp add: R obind_Inr foldM_append foldM_triples[of C])
qed

lemma foldM_agents:
  "mapM (\<lambda>n. rbind (V n) (\<lambda>vs.
           rbind (mapM (\<lambda>v. rbind (Y n) (\<lambda>ys. Inr (map (\<lambda>y. (n, v, y)) ys))) vs)
             (\<lambda>rows. Inr (concat rows)))) ns = Inr agents \<Longrightarrow>
     foldM (\<lambda>n st. obind (Some (V n)) (\<lambda>vs.
              foldM (\<lambda>v st. obind (Some (Y n)) (\<lambda>ys. foldM (\<lambda>y. C n v y) ys st)) vs st)) ns s
       = foldM (\<lambda>(n, v, y). C n v y) (concat agents) s"
proof (induction ns arbitrary: agents s)
  case Nil
  then show ?case by auto
next
  case (Cons n ns)
  from Cons.prems obtain vs rows bs where V: "V n = Inr vs"
      and rows: "mapM (\<lambda>v. rbind (Y n) (\<lambda>ys. Inr (map (\<lambda>y. (n, v, y)) ys))) vs = Inr rows"
      and bs: "mapM (\<lambda>n. rbind (V n) (\<lambda>vs.
           rbind (mapM (\<lambda>v. rbind (Y n) (\<lambda>ys. Inr (map (\<lambda>y. (n, v, y)) ys))) vs)
             (\<lambda>rows. Inr (concat rows)))) ns = Inr bs"
      and agents: "agents = concat rows # bs"
    by (auto simp add: rbind_def split: sum.splits)
  have "foldM (\<lambda>n st. obind (Some (V n)) (\<lambda>vs.
              foldM (\<lambda>v st. obind (Some (Y n)) (\<lambda>ys. foldM (\<lambda>y. C n v y) ys st)) vs st)) ns
          = foldM (\<lambda>(n, v, y). C n v y) (concat bs)"
    using Cons.IH[OF bs] by blast
  then show ?case
    unfolding agents by (simp add: V obind_Inr foldM_append foldM_rows[OF rows])
qed

lemma search_flock_flat:
  assumes "grid_flock dw config = Inr cands"
  shows "calc_control_and_trajectory_flock x dw config goal ob'
           = obind (foldM (\<lambda>(n, v, y). candidate_flock config x goal ob' n v y) cands
                      (PInf, replicate 6 [0, 0], A3 [x]))
               (\<lambda>(min_cost, best_u, best_trajectory). Some (Inr (best_u, best_trajectory)))"
proof -
  from assms obtain agents where
    a: "mapM (\<lambda>n.
              rbind (rbind (getitem dw n) (\<lambda>dwn. rbind (getitem dwn 0) (\<lambda>d0.
                       rbind (getitem dwn 1) (\<lambda>d1. arange d0 d1 (v_resolution config))))) (\<lambda>vs.
              rbind (mapM (\<lambda>v.
                       rbind (rbind (getitem dw n) (\<lambda>dwn. rbind (getitem dwn 2) (\<lambda>d2.
                                rbind (getitem dwn 3) (\<lambda>d3. arange d2 d3 (yaw_rate_resolution config))))) (\<lambda>ys.
                       Inr (map (\<lambda>y. (n, v, y)) ys)))
                     vs) (\<lambda>rows. Inr (concat rows))))
            [0..<6] = Inr agents" and c: "cands = concat agents"
    unfolding grid_flock_def by (auto simp add: rbind_def split: sum.splits)
  show ?thesis
    unfolding calc_control_and_trajectory_flock_def c
    by (simp only: foldM_agents[OF a, where C = "candidate_flock config x goal ob'"])
qed


text \<open>
  The selection block of \<^verbatim>\<open>dwa_flocking.py\<close>: a rejected candidate leaves the state, an
  accepted one writes the command of its agent and no other.
\<close>

lemma update_best_flock_rejects:
  "\<not> fl_ge min_cost cost \<Longrightarrow>
     update_best_flock config x n v y trajectory cost (min_cost, best_u, best_trajectory)
       = Inr (min_cost, best_u, best_trajectory)"
  by (simp add: update_best_flock_def)

lemma update_best_flock_accepts:
  assumes "fl_ge min_cost cost"
    and "update_best_flock config x n v y trajectory cost (min_cost, old_u, old_t) = Inr (min_cost', best_u, best_trajectory)"
  shows "n < length old_u
         \<and> best_u = old_u[n := (if \<bar>v\<bar> < robot_stuck_flag_cons config \<and> \<bar>x ! n ! 3\<bar> < robot_stuck_flag_cons config
                                  then [v, - max_delta_yaw_rate config] else [v, y])]"
proof (cases "n < length old_u")
  case False
  then show ?thesis using assms by (simp add: update_best_flock_def setitem_def rbind_Inl)
next
  case True
  note n = this
  show ?thesis
  proof (cases "\<bar>v\<bar> < robot_stuck_flag_cons config")
    case False
    then show ?thesis using assms n by (simp add: update_best_flock_def setitem_def rbind_Inr)
  next
    case True
    note vs = this
    show ?thesis
    proof (cases "getitem2 x n 3")
      case (Inl e)
      then show ?thesis using assms n vs
        by (simp add: update_best_flock_def setitem_def rbind_Inr rbind_Inl)
    next
      case (Inr xn3)
      then have "xn3 = x ! n ! 3"
        by (auto simp add: getitem2_def getitem_def rbind_def split: if_splits)
      then show ?thesis using assms n vs Inr
        by (auto simp add: update_best_flock_def setitem_def rbind_Inr)
    qed
  qed
qed

lemma update_best_flock_stall:
  assumes "fl_ge min_cost cost"
    and "update_best_flock config x n v y trajectory cost (min_cost, old_u, old_t) = Inr (min_cost', best_u, best_trajectory)"
    and "\<bar>best_u ! n ! 0\<bar> < robot_stuck_flag_cons config"
    and "\<bar>x ! n ! 3\<bar> < robot_stuck_flag_cons config"
  shows "best_u ! n ! 1 = - max_delta_yaw_rate config"
proof -
  note a = update_best_flock_accepts[OF assms(1,2)]
  show ?thesis
  proof (cases "\<bar>v\<bar> < robot_stuck_flag_cons config")
    case True
    then show ?thesis using a assms(4) by simp
  next
    case False
    then have "best_u ! n = [v, y]" using a by simp
    then show ?thesis using assms(3) False by simp
  qed
qed

lemma update_best_flock_keeps:
  assumes "update_best_flock config x m v y trajectory cost st = Inr st'"
    and "\<bar>fst (snd st) ! n ! 0\<bar> < robot_stuck_flag_cons config \<and> \<bar>x ! n ! 3\<bar> < robot_stuck_flag_cons config
           \<longrightarrow> fst (snd st) ! n ! 1 = - max_delta_yaw_rate config"
  shows "\<bar>fst (snd st') ! n ! 0\<bar> < robot_stuck_flag_cons config \<and> \<bar>x ! n ! 3\<bar> < robot_stuck_flag_cons config
           \<longrightarrow> fst (snd st') ! n ! 1 = - max_delta_yaw_rate config"
proof -
  obtain mc bu bt where st: "st = (mc, bu, bt)" by (cases st) auto
  obtain mc' bu' bt' where st': "st' = (mc', bu', bt')" by (cases st') auto
  show ?thesis
  proof (cases "fl_ge mc cost")
    case False
    then show ?thesis using assms st by (simp add: update_best_flock_rejects)
  next
    case True
    note acc = this
    have upd: "update_best_flock config x m v y trajectory cost (mc, bu, bt) = Inr (mc', bu', bt')"
      using assms(1) st st' by simp
    show ?thesis
    proof (cases "m = n")
      case True
      then show ?thesis using update_best_flock_stall[OF acc upd] st' by simp
    next
      case False
      then have "bu' ! n = bu ! n"
        using update_best_flock_accepts[OF acc upd] by simp
      then show ?thesis using assms(2) st st' by simp
    qed
  qed
qed

lemma candidate_flock_keeps:
  assumes "candidate_flock config x goal ob' m v y st = Some (Inr st')"
    and "\<bar>fst (snd st) ! n ! 0\<bar> < robot_stuck_flag_cons config \<and> \<bar>x ! n ! 3\<bar> < robot_stuck_flag_cons config
           \<longrightarrow> fst (snd st) ! n ! 1 = - max_delta_yaw_rate config"
  shows "\<bar>fst (snd st') ! n ! 0\<bar> < robot_stuck_flag_cons config \<and> \<bar>x ! n ! 3\<bar> < robot_stuck_flag_cons config
           \<longrightarrow> fst (snd st') ! n ! 1 = - max_delta_yaw_rate config"
proof -
  from assms(1) obtain trajectory where
    "Some (rbind (final_cost config trajectory goal ob')
               (\<lambda>cost. update_best_flock config x m v y trajectory cost st)) = Some (Inr st')"
    unfolding candidate_flock_def by (blast dest: obind_Some_Inr)
  then obtain cost where "update_best_flock config x m v y trajectory cost st = Inr st'"
    by (auto dest: rbind_Inr_iff)
  then show ?thesis using assms(2) by (rule update_best_flock_keeps)
qed

lemma accepted_candidate_flock:
  assumes "accepts_flock config x goal ob' n v y st"
    and "candidate_flock config x goal ob' n v y st = Some (Inr st')"
  shows "\<bar>fst (snd st') ! n ! 0\<bar> < robot_stuck_flag_cons config \<and> \<bar>x ! n ! 3\<bar> < robot_stuck_flag_cons config
           \<longrightarrow> fst (snd st') ! n ! 1 = - max_delta_yaw_rate config"
proof -
  obtain mc bu bt where st: "st = (mc, bu, bt)" by (cases st) auto
  obtain mc' bu' bt' where st': "st' = (mc', bu', bt')" by (cases st') auto
  from assms(1) obtain trajectory cost where
    p: "predict_trajectory_flock x n v y config = Some (Inr trajectory)"
    and c: "final_cost config trajectory goal ob' = Inr cost" and acc: "fl_ge mc cost"
    unfolding accepts_flock_def st by (auto split: option.splits sum.splits)
  have "update_best_flock config x n v y trajectory cost (mc, bu, bt) = Inr (mc', bu', bt')"
    using assms(2) p c st st' by (simp add: candidate_flock_def obind_Inr rbind_Inr)
  then show ?thesis using update_best_flock_stall[OF acc] st' by simp
qed

text \<open>
  Once a candidate of agent \<open>n\<close> has been accepted, the command of the agent keeps the
  anti-stall property to the end of the search: later candidates of other agents do not
  write it, and a later accepted candidate of the agent writes it anew.
\<close>

lemma search_flock_anti_stall:
  assumes grid: "grid_flock dw config = Inr (before @ (n, v, y) # after)"
    and reach: "foldM (\<lambda>(n, v, y). candidate_flock config x goal ob' n v y) before
                  (PInf, replicate 6 [0, 0], A3 [x]) = Some (Inr st)"
    and acc: "accepts_flock config x goal ob' n v y st"
    and res: "calc_control_and_trajectory_flock x dw config goal ob' = Some (Inr (best_u, best_trajectory))"
    and v: "\<bar>best_u ! n ! 0\<bar> < robot_stuck_flag_cons config"
    and xv: "\<bar>x ! n ! 3\<bar> < robot_stuck_flag_cons config"
  shows "best_u ! n ! 1 = - max_delta_yaw_rate config"
proof -
  let ?step = "\<lambda>(n, v, y). candidate_flock config x goal ob' n v y"
  let ?I = "\<lambda>s. \<bar>fst (snd s) ! n ! 0\<bar> < robot_stuck_flag_cons config \<and> \<bar>x ! n ! 3\<bar> < robot_stuck_flag_cons config
           \<longrightarrow> fst (snd s) ! n ! 1 = - max_delta_yaw_rate config"
  from res obtain mc where fin:
    "foldM ?step (before @ (n, v, y) # after) (PInf, replicate 6 [0, 0], A3 [x])
       = Some (Inr (mc, best_u, best_trajectory))"
    unfolding search_flock_flat[OF grid] by (auto dest!: obind_Some_Inr)
  then have "obind (candidate_flock config x goal ob' n v y st) (foldM ?step after)
               = Some (Inr (mc, best_u, best_trajectory))"
    by (simp add: foldM_append reach obind_Inr)
  then obtain st' where one: "candidate_flock config x goal ob' n v y st = Some (Inr st')"
    and rest: "foldM ?step after st' = Some (Inr (mc, best_u, best_trajectory))"
    by (blast dest: obind_Some_Inr)
  have I1: "?I st'"
    by (rule accepted_candidate_flock[OF acc one])
  have "?I (mc, best_u, best_trajectory)"
  proof (rule foldM_invariant[where I = ?I, OF _ I1 rest])
    fix a s s'
    assume Is: "?I s" and st: "?step a s = Some (Inr s')"
    obtain m w z where a: "a = (m, w, z)" by (cases a) auto
    show "?I s'"
      using candidate_flock_keeps[of config x goal ob' m w z s s' n] st Is unfolding a by simp
  qed
  then show ?thesis using v xv by simp
qed

subsection \<open>The search of the flocking file: empty windows\<close>

lemma search_3d_empty:
  assumes "0 < v_resolution config" and "0 < yaw_rate_resolution config"
    and "v_max \<le> v_min \<or> yaw_max \<le> yaw_min"
  shows "calc_control_and_trajectory_3d x [v_min, v_max, yaw_min, yaw_max] config goal ob'
           = Some (Inr ([0, 0], A2 [x]))"
proof (cases "v_max \<le> v_min")
  case True
  then show ?thesis using assms(1) by (simp add: search_3d_eq arange_empty)
next
  case False
  then have y: "yaw_max \<le> yaw_min" using assms(3) by simp
  obtain vs where "arange v_min v_max (v_resolution config) = Inr vs"
    using assms(1) by (simp add: arange_def)
  then show ?thesis using assms(2) y by (simp add: search_3d_eq arange_empty)
qed

lemma agent_step_empty:
  assumes "0 < v_resolution config" and "0 < yaw_rate_resolution config"
    and "getitem dw n = Inr [a, b, c, d]" and "b \<le> a \<or> d \<le> c"
  shows "obind (Some (rbind (getitem dw n) (\<lambda>dwn. rbind (getitem dwn 0) (\<lambda>d0.
                       rbind (getitem dwn 1) (\<lambda>d1. arange d0 d1 (v_resolution config)))))) (\<lambda>vs.
              foldM (\<lambda>v st.
                 obind (Some (rbind (getitem dw n) (\<lambda>dwn. rbind (getitem dwn 2) (\<lambda>d2.
                          rbind (getitem dwn 3) (\<lambda>d3. arange d2 d3 (yaw_rate_resolution config)))))) (\<lambda>ys.
                 foldM (\<lambda>y. candidate_flock config x goal ob' n v y) ys st))
               vs st) = Some (Inr st)"
proof -
  have g: "getitem [a, b, c, d] 0 = Inr a" "getitem [a, b, c, d] (Suc 0) = Inr b"
    "getitem [a, b, c, d] 2 = Inr c" "getitem [a, b, c, d] 3 = Inr d"
    by (simp_all add: getitem_def)
  show ?thesis
  proof (cases "b \<le> a")
    case True
    then show ?thesis using assms(1)
      by (simp add: assms(3) g rbind_Inr obind_Inr arange_empty)
  next
    case False
    then have y: "d \<le> c" using assms(4) by simp
    obtain vs where vs: "arange a b (v_resolution config) = Inr vs"
      using assms(1) by (simp add: arange_def)
    have "foldM (\<lambda>v st.
                 obind (Some (rbind (getitem dw n) (\<lambda>dwn. rbind (getitem dwn 2) (\<lambda>d2.
                          rbind (getitem dwn 3) (\<lambda>d3. arange d2 d3 (yaw_rate_resolution config)))))) (\<lambda>ys.
                 foldM (\<lambda>y. candidate_flock config x goal ob' n v y) ys st))
               vs st = Some (Inr st)"
      by (rule foldM_const_Inr)
         (simp add: assms(3) g rbind_Inr obind_Inr arange_empty[OF assms(2) y])
    then show ?thesis using vs
      by (simp add: assms(3) g rbind_Inr obind_Inr)
  qed
qed

lemma search_flock_empty:
  assumes "0 < v_resolution config" and "0 < yaw_rate_resolution config"
    and "length dw = 6"
    and "\<forall>w\<in>set dw. \<exists>a b c d. w = [a, b, c, d] \<and> (b \<le> a \<or> d \<le> c)"
  shows "calc_control_and_trajectory_flock x dw config goal ob'
           = Some (Inr (replicate 6 [0, 0], A3 [x]))"
proof -
  have "foldM (\<lambda>n st.
              obind (Some (rbind (getitem dw n) (\<lambda>dwn. rbind (getitem dwn 0) (\<lambda>d0.
                       rbind (getitem dwn 1) (\<lambda>d1. arange d0 d1 (v_resolution config)))))) (\<lambda>vs.
              foldM (\<lambda>v st.
                 obind (Some (rbind (getitem dw n) (\<lambda>dwn. rbind (getitem dwn 2) (\<lambda>d2.
                          rbind (getitem dwn 3) (\<lambda>d3. arange d2 d3 (yaw_rate_resolution config)))))) (\<lambda>ys.
                 foldM (\<lambda>y. candidate_flock config x goal ob' n v y) ys st))
               vs st))
            [0..<6] (PInf, replicate 6 [0, 0], A3 [x]) = Some (Inr (PInf, replicate 6 [0, 0], A3 [x]))"
  proof (rule foldM_unchanged)
    fix n assume "n \<in> set [0..<6]"
    then have n: "n < length dw" using assms(3) by simp
    then have "dw ! n \<in> set dw" by simp
    then obtain a b c d where w: "dw ! n = [a, b, c, d]" "b \<le> a \<or> d \<le> c"
      using assms(4) by blast
    have g: "getitem dw n = Inr [a, b, c, d]" using n w(1) by (simp add: getitem_def)
    show "obind (Some (rbind (getitem dw n) (\<lambda>dwn. rbind (getitem dwn 0) (\<lambda>d0.
                       rbind (getitem dwn 1) (\<lambda>d1. arange d0 d1 (v_resolution config)))))) (\<lambda>vs.
              foldM (\<lambda>v st.
                 obind (Some (rbind (getitem dw n) (\<lambda>dwn. rbind (getitem dwn 2) (\<lambda>d2.
                          rbind (getitem dwn 3) (\<lambda>d3. arange d2 d3 (yaw_rate_resolution config)))))) (\<lambda>ys.
                 foldM (\<lambda>y. candidate_flock config x goal ob' n v y) ys st))
               vs (PInf, replicate 6 [0, 0], A3 [x])) = Some (Inr (PInf, replicate 6 [0, 0], A3 [x]))"
      by (rule agent_step_empty[OF assms(1,2) g w(2)])
  qed
  then show ?thesis
    by (simp add: calc_control_and_trajectory_flock_def obind_Inr)
qed

subsection \<open>The search of the flocking file on the example inputs\<close>

text \<open>
  The agents of \<open>line_state p\<close>, the goal \<open>(20, 0)\<close> and the obstacle all lie on the
  \<open>x\<close> axis and every heading is \<open>0\<close>, so each distance is an absolute difference and the
  goal term of every candidate is \<open>0\<close>.
\<close>

lemma upt_6: "[0..<6] = [0, 1, 2, 3, 4, 5]"
  by (simp add: upt_rec)

lemma hypot_0: "hypot a 0 = \<bar>a\<bar>"
  by (simp add: hypot_def)

lemma atan2_0_pos: "0 < a \<Longrightarrow> atan2 0 a = 0"
  by (simp add: atan2_def)

lemma arange_half: "arange 0 1 (1 / 2) = Inr [0, 1 / 2]"
  by (simp add: arange_def upt_rec)

lemma arange_unit: "arange 0 1 1 = Inr [0]"
  by (simp add: arange_def upt_rec)

lemma predict_line:
  "predict_trajectory_flock (line_state p) 0 v 0 unit_config =
     Some (Inr (line_state p @ (line_state p)[0 := [v, 0, 0, v, 0]]))"
  by (simp add: predict_trajectory_flock_def predict_loop_flock_step predict_loop_flock_stop
      motion_flock_ok unit_config_def line_state_def fadd_0_1)

lemma final_cost_A0:
  "final_cost unit_config (line_state 0 @ (line_state 0)[0 := [0, 0, 0, 0, 0]]) (20, 0) [(10, 0)] = Inr (Fin (11 / 10))"
  by (simp add: final_cost_def calc_to_goal_cost_def calc_obstacle_cost_def column_def
      last_row_get_def getitem_def distances_def rbind_Inl rbind_Inr Let_def
      line_state_def unit_config_def hypot_0 atan2_0_pos fl_recip_def)


lemma final_cost_A1:
  "final_cost unit_config (line_state 0 @ (line_state 0)[0 := [1 / 2, 0, 0, 1 / 2, 0]]) (20, 0) [(10, 0)] = Inr (Fin (21 / 19))"
  by (simp add: final_cost_def calc_to_goal_cost_def calc_obstacle_cost_def column_def
      last_row_get_def getitem_def distances_def rbind_Inl rbind_Inr Let_def
      line_state_def unit_config_def hypot_0 atan2_0_pos fl_recip_def)

lemma final_cost_B0:
  "final_cost unit_config (line_state 9 @ (line_state 9)[0 := [0, 0, 0, 0, 0]]) (20, 0) [(10, 0)] = Inr (Fin 2)"
  by (simp add: final_cost_def calc_to_goal_cost_def calc_obstacle_cost_def column_def
      last_row_get_def getitem_def distances_def rbind_Inl rbind_Inr Let_def
      line_state_def unit_config_def hypot_0 atan2_0_pos fl_recip_def)

lemma final_cost_B1:
  "final_cost unit_config (line_state 9 @ (line_state 9)[0 := [1 / 2, 0, 0, 1 / 2, 0]]) (20, 0) [(10, 0)] = Inr (Fin 2)"
  by (simp add: final_cost_def calc_to_goal_cost_def calc_obstacle_cost_def column_def
      last_row_get_def getitem_def distances_def rbind_Inl rbind_Inr Let_def
      line_state_def unit_config_def hypot_0 atan2_0_pos fl_recip_def)

lemma line_state_access:
  "getitem2 (line_state p) 0 3 = Inr 0"
  by (simp add: line_state_def getitem2_def getitem_def rbind_Inr)

lemma unit_config_fields:
  "v_resolution unit_config = 1 / 2" "yaw_rate_resolution unit_config = 1"
  "robot_stuck_flag_cons unit_config = 1 / 10000" "max_delta_yaw_rate unit_config = 1"
  by (simp_all add: unit_config_def)

lemma replicate_6: "replicate 6 a = [a, a, a, a, a, a]"
  by (simp add: eval_nat_numeral)

lemma search_A:
  "calc_control_and_trajectory_flock (line_state 0) first_agent_windows unit_config (20, 0) [(10, 0)]
     = Some (Inr ([[0, - 1], [0, 0], [0, 0], [0, 0], [0, 0], [0, 0]],
                  A2 (line_state 0 @ (line_state 0)[0 := [0, 0, 0, 0, 0]])))"
  by (simp add: calc_control_and_trajectory_flock_def upt_6 first_agent_windows_def
      getitem_def setitem_def rbind_Inr obind_Inr candidate_flock_def update_best_flock_def
      predict_line final_cost_A0 final_cost_A1 line_state_access
      arange_half arange_unit arange_empty unit_config_fields replicate_6)

lemma search_B:
  "calc_control_and_trajectory_flock (line_state 9) first_agent_windows unit_config (20, 0) [(10, 0)]
     = Some (Inr ([[1 / 2, 0], [0, 0], [0, 0], [0, 0], [0, 0], [0, 0]],
                  A2 (line_state 9 @ (line_state 9)[0 := [1 / 2, 0, 0, 1 / 2, 0]])))"
  by (simp add: calc_control_and_trajectory_flock_def upt_6 first_agent_windows_def
      getitem_def setitem_def rbind_Inr obind_Inr candidate_flock_def update_best_flock_def
      predict_line final_cost_B0 final_cost_B1 line_state_access
      arange_half arange_unit arange_empty unit_config_fields replicate_6)

lemma arange_second: "arange (1 / 2) 1 (1 / 2) = Inr [1 / 2]"
  by (simp add: arange_def upt_rec)

lemma predict_line_second:
  "predict_trajectory_flock (line_state p) (Suc 0) v 0 unit_config =
     Some (Inr (line_state p @ (line_state p)[1 := [v, 0, 0, v, 0]]))"
  by (simp add: predict_trajectory_flock_def predict_loop_flock_step predict_loop_flock_stop
      motion_flock_ok unit_config_def line_state_def fadd_0_1)

lemma final_cost_A_second:
  "final_cost unit_config (line_state 0 @ (line_state 0)[Suc 0 := [1 / 2, 0, 0, 1 / 2, 0]]) (20, 0) [(10, 0)] = Inr (Fin (21 / 19))"
  by (simp add: final_cost_def calc_to_goal_cost_def calc_obstacle_cost_def column_def
      last_row_get_def getitem_def distances_def rbind_Inl rbind_Inr Let_def
      line_state_def unit_config_def hypot_0 atan2_0_pos fl_recip_def)

lemma line_state_access_second:
  "getitem2 (line_state p) (Suc 0) 3 = Inr 0"
  by (simp add: line_state_def getitem2_def getitem_def rbind_Inr)

lemma search_both:
  "calc_control_and_trajectory_flock (line_state 0) both_agents_windows unit_config (20, 0) [(10, 0)]
     = Some (Inr ([[0, - 1], [0, 0], [0, 0], [0, 0], [0, 0], [0, 0]],
                  A2 (line_state 0 @ (line_state 0)[0 := [0, 0, 0, 0, 0]])))"
  by (simp add: calc_control_and_trajectory_flock_def upt_6 both_agents_windows_def
      getitem_def setitem_def rbind_Inr obind_Inr candidate_flock_def update_best_flock_def
      predict_line predict_line_second final_cost_A0 final_cost_A1 final_cost_A_second
      line_state_access line_state_access_second
      arange_half arange_unit arange_second arange_empty unit_config_fields replicate_6)

lemma search_second:
  "calc_control_and_trajectory_flock (line_state 0) second_agent_windows unit_config (20, 0) [(10, 0)]
     = Some (Inr ([[0, 0], [1 / 2, 0], [0, 0], [0, 0], [0, 0], [0, 0]],
                  A2 (line_state 0 @ (line_state 0)[1 := [1 / 2, 0, 0, 1 / 2, 0]])))"
  by (simp add: calc_control_and_trajectory_flock_def upt_6 second_agent_windows_def
      getitem_def setitem_def rbind_Inr obind_Inr candidate_flock_def update_best_flock_def
      predict_line predict_line_second final_cost_A_second
      line_state_access line_state_access_second
      arange_half arange_unit arange_second arange_empty unit_config_fields replicate_6)

lemma final_cost_collision:
  "final_cost unit_config (line_state 0 @ (line_state 0)[0 := [v, 0, 0, v, 0]]) (20, 0) [(0, 0)] = Inr PInf"
  by (simp add: final_cost_def calc_to_goal_cost_def calc_obstacle_cost_def column_def
      last_row_get_def getitem_def distances_def rbind_Inl rbind_Inr Let_def
      line_state_def unit_config_def hypot_0 atan2_0_pos fl_recip_def)

subsection \<open>Degenerate searches\<close>

lemma search_3d_nonempty_window:
  "calc_control_and_trajectory_3d [0, 0, 0, 0, 0, 0, 0] [0, 1, 0, 1] unit_config (20, 0) [(0, 0)]
     = Some (Inl IndexError)"
  by (simp add: search_3d_eq unit_config_fields arange_half arange_unit)

text \<open>
  C4 as stated: the search returns the command \<open>(0, 0)\<close> and the single-state trajectory
  whenever the window is empty in either dimension, and also whenever every enumerated
  candidate has infinite cost. The second case fails. No candidate is ever scored in
  \<^verbatim>\<open>dwa_3d.py\<close>, so it is traced on the search of \<^verbatim>\<open>dwa_flocking.py\<close>, whose selection
  block has the same text: with an obstacle on the agents, both candidates of the first
  agent have infinite cost, and the search returns the last one, \<open>(1/2, 0)\<close>, with its
  trajectory, because \<^verbatim>\<open>min_cost >= final_cost\<close> holds between two infinities. The last
  two conjuncts are the selection block of \<^verbatim>\<open>dwa_3d.py\<close> itself on an infinite cost,
  and its whole search on the same window, which raises instead of returning the default.
\<close>

theorem C4_all_collision_counterexample:
  "final_cost unit_config (line_state 0 @ (line_state 0)[0 := [0, 0, 0, 0, 0]]) (20, 0) [(0, 0)] = Inr PInf
   \<and> final_cost unit_config (line_state 0 @ (line_state 0)[0 := [1 / 2, 0, 0, 1 / 2, 0]]) (20, 0) [(0, 0)] = Inr PInf
   \<and> calc_control_and_trajectory_flock (line_state 0) first_agent_windows unit_config (20, 0) [(0, 0)]
     = Some (Inr ([[1 / 2, 0], [0, 0], [0, 0], [0, 0], [0, 0], [0, 0]],
                  A2 (line_state 0 @ (line_state 0)[0 := [1 / 2, 0, 0, 1 / 2, 0]])))
   \<and> update_best_3d unit_config [0, 0, 0, 0, 0, 0, 0] (1 / 2) 0
         (A2 [[0, 0, 0, 0, 0, 0, 0], [1 / 2, 0, 1, 0, 1 / 2, 0, 0]]) PInf
         (PInf, [0, 0], A2 [[0, 0, 0, 0, 0, 0, 0]])
     = Inr (PInf, [1 / 2, 0], A2 [[0, 0, 0, 0, 0, 0, 0], [1 / 2, 0, 1, 0, 1 / 2, 0, 0]])
   \<and> calc_control_and_trajectory_3d [0, 0, 0, 0, 0, 0, 0] [0, 1, 0, 1] unit_config (20, 0) [(0, 0)]
     = Some (Inl IndexError)"
  by (simp add: calc_control_and_trajectory_flock_def upt_6 first_agent_windows_def
      getitem_def setitem_def rbind_Inr obind_Inr candidate_flock_def update_best_flock_def
      update_best_3d_def search_3d_nonempty_window
      predict_line final_cost_collision line_state_access
      arange_half arange_unit arange_empty unit_config_fields replicate_6)

text \<open>
  C4, amended: whenever the dynamic window is empty in either dimension
  (\<open>v_max \<le> v_min\<close> or \<open>yaw_max \<le> yaw_min\<close>, the resolutions being positive), no
  candidate is enumerated and the search returns the command \<open>(0, 0)\<close> and the trajectory
  that consists of the single current state; in the flocking file, when the window of
  each of the six agents is empty, every agent gets the command \<open>(0, 0)\<close>.
\<close>

theorem C4_empty_window_default:
  assumes "0 < v_resolution config" and "0 < yaw_rate_resolution config"
  shows "(v_max \<le> v_min \<or> yaw_max \<le> yaw_min \<longrightarrow>
            calc_control_and_trajectory_3d x [v_min, v_max, yaw_min, yaw_max] config goal ob'
              = Some (Inr ([0, 0], A2 [x])))
       \<and> (length dw = 6 \<and> (\<forall>w\<in>set dw. \<exists>a b c d. w = [a, b, c, d] \<and> (b \<le> a \<or> d \<le> c)) \<longrightarrow>
            calc_control_and_trajectory_flock xs dw config goal ob'
              = Some (Inr (replicate 6 [0, 0], A3 [xs])))"
proof (intro conjI impI)
  assume "v_max \<le> v_min \<or> yaw_max \<le> yaw_min"
  then show "calc_control_and_trajectory_3d x [v_min, v_max, yaw_min, yaw_max] config goal ob'
              = Some (Inr ([0, 0], A2 [x]))"
    by (rule search_3d_empty[OF assms])
next
  assume a: "length dw = 6 \<and> (\<forall>w\<in>set dw. \<exists>a b c d. w = [a, b, c, d] \<and> (b \<le> a \<or> d \<le> c))"
  show "calc_control_and_trajectory_flock xs dw config goal ob'
              = Some (Inr (replicate 6 [0, 0], A3 [xs]))"
    by (rule search_flock_empty[OF assms conjunct1[OF a] conjunct2[OF a]])
qed

theorem C4_empty_window_default_witness:
  "calc_control_and_trajectory_3d [0, 0, 0, 0, 0, 0, 0] [1, 1, - 1, 1] unit_config (20, 0) [(10, 0)]
     = Some (Inr ([0, 0], A2 [[0, 0, 0, 0, 0, 0, 0]]))
   \<and> calc_control_and_trajectory_flock (line_state 0) (replicate 6 [0, 1, 0, 0]) unit_config (20, 0) [(10, 0)]
     = Some (Inr (replicate 6 [0, 0], A3 [line_state 0]))"
proof -
  have r: "0 < v_resolution unit_config" "0 < yaw_rate_resolution unit_config"
    by (simp_all add: unit_config_def)
  have w: "length (replicate 6 [0, 1, 0, 0 :: real]) = 6
         \<and> (\<forall>w\<in>set (replicate 6 [0, 1, 0, 0 :: real]). \<exists>a b c d. w = [a, b, c, d] \<and> (b \<le> a \<or> d \<le> c))"
    by simp
  note inst = C4_empty_window_default[OF r, where v_min = 1 and v_max = 1 and yaw_min = "- 1"
        and yaw_max = 1 and x = "[0, 0, 0, 0, 0, 0, 0]" and goal = "(20, 0)" and ob' = "[(10, 0)]"
        and dw = "replicate 6 [0, 1, 0, 0]" and xs = "line_state 0"]
  have e: "(1 :: real) \<le> 1 \<or> (1 :: real) \<le> - 1" by simp
  show ?thesis
    using mp[OF conjunct1[OF inst] e] mp[OF conjunct2[OF inst] w] by (rule conjI)
qed

text \<open>
  C7 as stated: whenever the returned velocity and the current velocity are both below the
  threshold, the returned yaw rate is the negated \<open>max_delta_yaw_rate\<close>. The override
  sits inside the block that accepts a candidate, so a search that accepts no candidate of
  the robot returns its default \<open>(0, 0)\<close> untouched: velocity \<open>0\<close>, current velocity
  \<open>0\<close>, yaw rate \<open>0\<close>. So it is with an empty window, in both files, and so it is in
  \<^verbatim>\<open>dwa_flocking.py\<close> for the second agent, whose window is not empty but whose only
  candidate costs more than the \<open>min_cost\<close> the first agent has left.
\<close>

theorem C7_default_command_counterexample:
  "calc_control_and_trajectory_3d [0, 0, 0, 0, 0, 0, 0] [0, 0, 0, 0] unit_config (20, 0) [(10, 0)]
     = Some (Inr ([0, 0], A2 [[0, 0, 0, 0, 0, 0, 0]]))
   \<and> \<bar>[0, 0 :: real] ! 0\<bar> < robot_stuck_flag_cons unit_config
   \<and> \<bar>[0, 0, 0, 0, 0, 0, 0 :: real] ! 4\<bar> < robot_stuck_flag_cons unit_config
   \<and> [0, 0 :: real] ! 1 \<noteq> - max_delta_yaw_rate unit_config
   \<and> calc_control_and_trajectory_flock (line_state 0) (replicate 6 [0, 0, 0, 0]) unit_config (20, 0) [(10, 0)]
     = Some (Inr (replicate 6 [0, 0], A3 [line_state 0]))
   \<and> \<bar>line_state 0 ! 0 ! 3\<bar> < robot_stuck_flag_cons unit_config
   \<and> calc_control_and_trajectory_flock (line_state 0) both_agents_windows unit_config (20, 0) [(10, 0)]
     = Some (Inr ([[0, - 1], [0, 0], [0, 0], [0, 0], [0, 0], [0, 0]],
                  A2 (line_state 0 @ (line_state 0)[0 := [0, 0, 0, 0, 0]])))
   \<and> \<bar>line_state 0 ! 1 ! 3\<bar> < robot_stuck_flag_cons unit_config"
proof -
  have r: "0 < v_resolution unit_config" "0 < yaw_rate_resolution unit_config"
    by (simp_all add: unit_config_def)
  have "calc_control_and_trajectory_3d [0, 0, 0, 0, 0, 0, 0] [0, 0, 0, 0] unit_config (20, 0) [(10, 0)]
     = Some (Inr ([0, 0], A2 [[0, 0, 0, 0, 0, 0, 0]]))"
    by (rule search_3d_empty[OF r]) simp
  moreover have "calc_control_and_trajectory_flock (line_state 0) (replicate 6 [0, 0, 0, 0]) unit_config (20, 0) [(10, 0)]
     = Some (Inr (replicate 6 [0, 0], A3 [line_state 0]))"
    by (rule search_flock_empty[OF r]) simp_all
  moreover have "calc_control_and_trajectory_flock (line_state 0) both_agents_windows unit_config (20, 0) [(10, 0)]
     = Some (Inr ([[0, - 1], [0, 0], [0, 0], [0, 0], [0, 0], [0, 0]],
                  A2 (line_state 0 @ (line_state 0)[0 := [0, 0, 0, 0, 0]])))"
    by (rule search_both)
  ultimately show ?thesis
    by (simp add: unit_config_def line_state_def)
qed

text \<open>
  C7, amended: for every search input in which a candidate of the robot is accepted (the
  test \<^verbatim>\<open>min_cost >= final_cost\<close> holds when the candidate is scored), if the returned
  command's linear velocity has absolute value below the threshold and the current linear
  velocity of the robot also has, then the returned yaw rate equals the negated
  \<open>max_delta_yaw_rate\<close>, whatever yaw rate the accepted candidate had.

  The first conjunct is the search of \<^verbatim>\<open>dwa_flocking.py\<close>, for each agent \<open>n\<close>: the
  candidate \<open>(n, v, y)\<close> stands in the list of candidates, the search has reached the state
  \<open>st\<close> after the candidates before it, and accepts it there. The second and the third
  conjunct are the selection blocks of \<^verbatim>\<open>dwa_flocking.py\<close> (lines 201 to 211) and of
  \<^verbatim>\<open>dwa_3d.py\<close> (lines 192 to 202), for the command they leave when they accept a
  candidate.
\<close>

theorem C7_anti_stall:
  "(grid_flock dw config = Inr (before @ (n, v, y) # after) \<longrightarrow>
      foldM (\<lambda>(n, v, y). candidate_flock config x goal ob' n v y) before
        (PInf, replicate 6 [0, 0], A3 [x]) = Some (Inr st) \<longrightarrow>
      accepts_flock config x goal ob' n v y st \<longrightarrow>
      calc_control_and_trajectory_flock x dw config goal ob' = Some (Inr (best_u, best_trajectory)) \<longrightarrow>
      \<bar>best_u ! n ! 0\<bar> < robot_stuck_flag_cons config \<longrightarrow>
      \<bar>x ! n ! 3\<bar> < robot_stuck_flag_cons config \<longrightarrow>
      best_u ! n ! 1 = - max_delta_yaw_rate config)
   \<and> (fl_ge min_cost cost \<longrightarrow>
      update_best_flock config x n v y stack cost (min_cost, old_us, old_ts) = Inr (new_cost, new_us, new_ts) \<longrightarrow>
      \<bar>new_us ! n ! 0\<bar> < robot_stuck_flag_cons config \<longrightarrow>
      \<bar>x ! n ! 3\<bar> < robot_stuck_flag_cons config \<longrightarrow>
      new_us ! n ! 1 = - max_delta_yaw_rate config)
   \<and> (fl_ge min_cost cost \<longrightarrow>
      update_best_3d config xr v y trajectory cost (min_cost, old_u, old_t) = Inr (min_cost', u', t') \<longrightarrow>
      \<bar>u' ! 0\<bar> < robot_stuck_flag_cons config \<longrightarrow>
      \<bar>xr ! 4\<bar> < robot_stuck_flag_cons config \<longrightarrow>
      u' ! 1 = - max_delta_yaw_rate config)"
proof (intro conjI impI)
  assume "grid_flock dw config = Inr (before @ (n, v, y) # after)"
    and "foldM (\<lambda>(n, v, y). candidate_flock config x goal ob' n v y) before
           (PInf, replicate 6 [0, 0], A3 [x]) = Some (Inr st)"
    and "accepts_flock config x goal ob' n v y st"
    and "calc_control_and_trajectory_flock x dw config goal ob' = Some (Inr (best_u, best_trajectory))"
    and "\<bar>best_u ! n ! 0\<bar> < robot_stuck_flag_cons config"
    and "\<bar>x ! n ! 3\<bar> < robot_stuck_flag_cons config"
  then show "best_u ! n ! 1 = - max_delta_yaw_rate config"
    by (rule search_flock_anti_stall)
next
  assume "fl_ge min_cost cost"
    and "update_best_flock config x n v y stack cost (min_cost, old_us, old_ts) = Inr (new_cost, new_us, new_ts)"
    and "\<bar>new_us ! n ! 0\<bar> < robot_stuck_flag_cons config"
    and "\<bar>x ! n ! 3\<bar> < robot_stuck_flag_cons config"
  then show "new_us ! n ! 1 = - max_delta_yaw_rate config"
    by (rule update_best_flock_stall)
next
  assume acc: "fl_ge min_cost cost"
    and upd: "update_best_3d config xr v y trajectory cost (min_cost, old_u, old_t) = Inr (min_cost', u', t')"
    and v: "\<bar>u' ! 0\<bar> < robot_stuck_flag_cons config"
    and xv: "\<bar>xr ! 4\<bar> < robot_stuck_flag_cons config"
  show "u' ! 1 = - max_delta_yaw_rate config"
  proof (cases "\<bar>v\<bar> < robot_stuck_flag_cons config")
    case False
    then have "u' = [v, y]" using acc upd by (simp add: update_best_3d_def)
    then show ?thesis using v False by simp
  next
    case True
    show ?thesis
    proof (cases "getitem xr 4")
      case (Inl e)
      then show ?thesis using acc upd True by (simp add: update_best_3d_def rbind_Inl)
    next
      case (Inr x4)
      then have "x4 = xr ! 4" by (auto simp add: getitem_def split: if_splits)
      then show ?thesis using acc upd True Inr xv
        by (auto simp add: update_best_3d_def rbind_Inr)
    qed
  qed
qed

text \<open>
  The search of the first agent alone: the candidate \<open>(0, 0)\<close> is the first of its two
  candidates and is accepted against the initial \<open>min_cost\<close>; the returned command of the
  agent is \<open>(0, - 1)\<close>.
\<close>

lemma grid_flock_first_agent:
  "grid_flock first_agent_windows unit_config = Inr ([] @ (0, 0, 0) # [(0, 1 / 2, 0)])"
  by (simp add: grid_flock_def upt_6 first_agent_windows_def getitem_def rbind_Inr
      arange_half arange_unit arange_empty unit_config_fields)

lemma accepts_flock_first_agent:
  "accepts_flock unit_config (line_state 0) (20, 0) [(10, 0)] 0 0 0
     (PInf, replicate 6 [0, 0], A3 [line_state 0])"
  by (simp add: accepts_flock_def predict_line final_cost_A0)

theorem C7_anti_stall_witness:
  "grid_flock first_agent_windows unit_config = Inr ([] @ (0, 0, 0) # [(0, 1 / 2, 0)])
   \<and> accepts_flock unit_config (line_state 0) (20, 0) [(10, 0)] 0 0 0
        (PInf, replicate 6 [0, 0], A3 [line_state 0])
   \<and> calc_control_and_trajectory_flock (line_state 0) first_agent_windows unit_config (20, 0) [(10, 0)]
     = Some (Inr ([[0, - 1], [0, 0], [0, 0], [0, 0], [0, 0], [0, 0]],
                  A2 (line_state 0 @ (line_state 0)[0 := [0, 0, 0, 0, 0]])))
   \<and> [[0, - 1], [0, 0], [0, 0], [0, 0], [0, 0], [0, 0 :: real]] ! 0 ! 1 = - max_delta_yaw_rate unit_config
   \<and> update_best_flock unit_config (line_state 0) 1 0 (1 / 2) (line_state 0) (Fin 1)
        (Fin 2, replicate 6 [0, 0], A3 [line_state 0])
      = Inr (Fin 1, [[0, 0], [0, - 1], [0, 0], [0, 0], [0, 0], [0, 0]], A2 (line_state 0))
   \<and> [[0, 0], [0, - 1], [0, 0], [0, 0], [0, 0], [0, 0 :: real]] ! 1 ! 1 = - max_delta_yaw_rate unit_config
   \<and> update_best_3d unit_config [0, 0, 0, 0, 0, 0, 0] 0 0 (A2 [[0, 0, 0, 0, 0, 0, 0]]) (Fin 1)
        (PInf, [0, 0], A2 [[0, 0, 0, 0, 0, 0, 0]])
      = Inr (Fin 1, [0, - 1], A2 [[0, 0, 0, 0, 0, 0, 0]])
   \<and> [0, - 1 :: real] ! 1 = - max_delta_yaw_rate unit_config"
proof -
  have g: "grid_flock first_agent_windows unit_config = Inr ([] @ (0, 0, 0) # [(0, 1 / 2, 0)])"
    by (rule grid_flock_first_agent)
  have f: "foldM (\<lambda>(n, v, y). candidate_flock unit_config (line_state 0) (20, 0) [(10, 0)] n v y) []
             (PInf, replicate 6 [0, 0], A3 [line_state 0])
           = Some (Inr (PInf, replicate 6 [0, 0], A3 [line_state 0]))"
    by simp
  have acc: "accepts_flock unit_config (line_state 0) (20, 0) [(10, 0)] 0 0 0
               (PInf, replicate 6 [0, 0], A3 [line_state 0])"
    by (rule accepts_flock_first_agent)
  have a: "calc_control_and_trajectory_flock (line_state 0) first_agent_windows unit_config (20, 0) [(10, 0)]
     = Some (Inr ([[0, - 1], [0, 0], [0, 0], [0, 0], [0, 0], [0, 0]],
                  A2 (line_state 0 @ (line_state 0)[0 := [0, 0, 0, 0, 0]])))"
    by (rule search_A)
  have t: "robot_stuck_flag_cons unit_config = 1 / 10000"
    by (simp add: unit_config_def)
  have xs: "\<bar>line_state 0 ! 0 ! 3\<bar> < robot_stuck_flag_cons unit_config"
    "\<bar>line_state 0 ! 1 ! 3\<bar> < robot_stuck_flag_cons unit_config"
    by (simp_all add: line_state_def t)
  have vs: "\<bar>[[0, - 1], [0, 0], [0, 0], [0, 0], [0, 0], [0, 0 :: real]] ! 0 ! 0\<bar> < robot_stuck_flag_cons unit_config"
    "\<bar>[[0, 0], [0, - 1], [0, 0], [0, 0], [0, 0], [0, 0 :: real]] ! 1 ! 0\<bar> < robot_stuck_flag_cons unit_config"
    "\<bar>[0, - 1 :: real] ! 0\<bar> < robot_stuck_flag_cons unit_config"
    "\<bar>[0, 0, 0, 0, 0, 0, 0 :: real] ! 4\<bar> < robot_stuck_flag_cons unit_config"
    by (simp_all add: t)
  have b: "update_best_flock unit_config (line_state 0) 1 0 (1 / 2) (line_state 0) (Fin 1)
        (Fin 2, replicate 6 [0, 0], A3 [line_state 0])
      = Inr (Fin 1, [[0, 0], [0, - 1], [0, 0], [0, 0], [0, 0], [0, 0]], A2 (line_state 0))"
    by (simp add: update_best_flock_def setitem_def rbind_Inr line_state_access_second
        unit_config_fields replicate_6)
  have c: "update_best_3d unit_config [0, 0, 0, 0, 0, 0, 0] 0 0 (A2 [[0, 0, 0, 0, 0, 0, 0]]) (Fin 1)
        (PInf, [0, 0], A2 [[0, 0, 0, 0, 0, 0, 0]])
      = Inr (Fin 1, [0, - 1], A2 [[0, 0, 0, 0, 0, 0, 0]])"
    by (simp add: update_best_3d_def getitem_def rbind_Inr unit_config_fields)
  have ge: "fl_ge (Fin 2) (Fin 1)" "fl_ge PInf (Fin 1)"
    by simp_all
  note search = C7_anti_stall[where dw = first_agent_windows and config = unit_config
      and before = "[]" and n = 0 and v = 0 and y = 0 and after = "[(0, 1 / 2, 0)]"
      and x = "line_state 0" and goal = "(20, 0)" and ob' = "[(10, 0)]"
      and st = "(PInf, replicate 6 [0, 0], A3 [line_state 0])"
      and best_u = "[[0, - 1], [0, 0], [0, 0], [0, 0], [0, 0], [0, 0]]"
      and best_trajectory = "A2 (line_state 0 @ (line_state 0)[0 := [0, 0, 0, 0, 0]])"]
  note block = C7_anti_stall[where config = unit_config and x = "line_state 0" and n = 1
      and v = 0 and y = "1 / 2" and stack = "line_state 0" and min_cost = "Fin 2" and cost = "Fin 1"
      and old_us = "replicate 6 [0, 0]" and old_ts = "A3 [line_state 0]" and new_cost = "Fin 1"
      and new_us = "[[0, 0], [0, - 1], [0, 0], [0, 0], [0, 0], [0, 0]]" and new_ts = "A2 (line_state 0)"]
  note single = C7_anti_stall[where config = unit_config and min_cost = PInf and cost = "Fin 1"
      and xr = "[0, 0, 0, 0, 0, 0, 0]" and v = 0 and y = 0
      and trajectory = "A2 [[0, 0, 0, 0, 0, 0, 0]]" and old_u = "[0, 0]"
      and old_t = "A2 [[0, 0, 0, 0, 0, 0, 0]]" and min_cost' = "Fin 1" and u' = "[0, - 1]"
      and t' = "A2 [[0, 0, 0, 0, 0, 0, 0]]"]
  have r1: "[[0, - 1], [0, 0], [0, 0], [0, 0], [0, 0], [0, 0 :: real]] ! 0 ! 1 = - max_delta_yaw_rate unit_config"
    by (rule mp[OF mp[OF mp[OF mp[OF mp[OF mp[OF conjunct1[OF search] g] f] acc] a] vs(1)] xs(1)])
  have r2: "[[0, 0], [0, - 1], [0, 0], [0, 0], [0, 0], [0, 0 :: real]] ! 1 ! 1 = - max_delta_yaw_rate unit_config"
    by (rule mp[OF mp[OF mp[OF mp[OF conjunct1[OF conjunct2[OF block]] ge(1)] b] vs(2)] xs(2)])
  have r3: "[0, - 1 :: real] ! 1 = - max_delta_yaw_rate unit_config"
    by (rule mp[OF mp[OF mp[OF mp[OF conjunct2[OF conjunct2[OF single]] ge(2)] c] vs(3)] vs(4)])
  show ?thesis
    using g acc a r1 b r2 c r3 by (intro conjI)
qed

subsection \<open>Independence of the agents\<close>

text \<open>
  C5. The claim: in the flocking file the command selected for agent \<open>n\<close> is the result
  of the single-agent search on the state of agent \<open>n\<close> alone; the cost of its candidates
  depends on its own trajectory only, and its selection does not depend on the costs of
  the other agents. Evaluated on the code: moving the sixth agent from the origin to
  \<open>(9, 0)\<close> changes the command of the first agent from \<open>(0, -1)\<close> to \<open>(1/2, 0)\<close>,
  its own state and window being the same (the cost reads the last row of the stacked
  trajectory and the distances of all rows); and the second agent, whose only candidate is
  \<open>(1/2, 0)\<close>, gets that candidate when the first agent has no window and the default
  \<open>(0, 0)\<close> when the first agent has one (\<open>min_cost\<close> is not reset between agents).
\<close>

theorem C5_command_depends_on_other_agents:
  "calc_control_and_trajectory_flock (line_state 0) first_agent_windows unit_config (20, 0) [(10, 0)]
     = Some (Inr ([[0, - 1], [0, 0], [0, 0], [0, 0], [0, 0], [0, 0]],
                  A2 (line_state 0 @ (line_state 0)[0 := [0, 0, 0, 0, 0]])))
   \<and> calc_control_and_trajectory_flock (line_state 9) first_agent_windows unit_config (20, 0) [(10, 0)]
     = Some (Inr ([[1 / 2, 0], [0, 0], [0, 0], [0, 0], [0, 0], [0, 0]],
                  A2 (line_state 9 @ (line_state 9)[0 := [1 / 2, 0, 0, 1 / 2, 0]])))
   \<and> line_state 0 ! 0 = line_state 9 ! 0
   \<and> calc_control_and_trajectory_flock (line_state 0) second_agent_windows unit_config (20, 0) [(10, 0)]
     = Some (Inr ([[0, 0], [1 / 2, 0], [0, 0], [0, 0], [0, 0], [0, 0]],
                  A2 (line_state 0 @ (line_state 0)[1 := [1 / 2, 0, 0, 1 / 2, 0]])))
   \<and> calc_control_and_trajectory_flock (line_state 0) both_agents_windows unit_config (20, 0) [(10, 0)]
     = Some (Inr ([[0, - 1], [0, 0], [0, 0], [0, 0], [0, 0], [0, 0]],
                  A2 (line_state 0 @ (line_state 0)[0 := [0, 0, 0, 0, 0]])))
   \<and> second_agent_windows ! 1 = both_agents_windows ! 1"
proof (intro conjI)
  show "line_state 0 ! 0 = line_state 9 ! 0"
    by (simp add: line_state_def)
  show "second_agent_windows ! 1 = both_agents_windows ! 1"
    by (simp add: second_agent_windows_def both_agents_windows_def)
qed (rule search_A search_B search_second search_both)+

subsection \<open>The goal loop of the flocking file\<close>

lemma goal1_loop_flock_result:
  assumes "goal1_loop_flock config goal1 ob' x trajectory = Some res"
  shows "\<exists>e. res = Inl e"
proof -
  note R = goal1_loop_flock.raw_induct[where P = "\<lambda>_ _ _ _ _ res. \<exists>e. res = Inl e"
        and xa = "((((config, goal1), ob'), x), trajectory)" and y = res, simplified]
  show ?thesis
    by (rule R[OF _ assms]) (auto split: option.splits sum.splits prod.splits)
qed

lemma goal_scan_flock_reached:
  "goal_scan_flock [[26.5, - 5, 0, 0, 0], [1, - 3, 0, 0, 0], [1, - 5, 0, 0, 0],
                    [3, - 1, 0, 0, 0], [3, - 3, 0, 0, 0], [3, - 5, 0, 0, 0]]
     (26.5, - 5) default_config [0..<6] = Inr True"
  by (simp add: upt_6 getitem2_def getitem_def rbind_Inr hypot_0 default_config_def)

text \<open>
  C6. The claim: each goal is left when it is reached, and in particular the multi-agent
  loop leaves the first goal's loop once some agent has reached the first goal. On the
  code the first goal loop of \<^verbatim>\<open>dwa_flocking.py\<close> never returns, whatever the inputs: it
  raises or runs forever, also from a state in which the scan finds an agent within the
  radius (\<open>goal_scan_flock_reached\<close>), because the \<^verbatim>\<open>break\<close> leaves the scan only.
\<close>

theorem C6_goal1_loop_never_left:
  "goal1_loop_flock config goal1 ob' x trajectory \<noteq> Some (Inr r)"
  using goal1_loop_flock_result[of config goal1 ob' x trajectory "Inr r"] by auto

end
